theory Spec2Isabelle
  imports Complex_Main "HOL-Library.Multiset" "HOL-Library.AList"
begin

chapter \<open>TapTime games: game loop, client score cache, in-memory store and HTTP routes\<close>

text \<open>
  A shallow embedding of the TypeScript sources. Mutable objects become records that are
  passed in and returned; a thrown exception is the \<open>Inl\<close> side of a sum; a JavaScript
  \<open>Map\<close> is an association list in insertion order; \<open>number\<close> is \<open>int\<close> (every score
  the games produce is an integer; infinities and the loss of precision above 2^53 are
  outside the model, and times are whole milliseconds), except in the physics of Paper
  Plane, which is in fractions and is modelled in \<open>rat\<close>. Strings are lists of 8-bit
  characters.
\<close>

section \<open>JavaScript values\<close>

datatype exn = TypeError | SyntaxError | Failure string

text \<open>
  A value read back by \<open>JSON.parse\<close>; an object is the list of its properties, each key
  once. \<open>undefined\<close> is \<open>None\<close> of \<open>json option\<close>.
\<close>

datatype json =
  JNull
  | JBool bool
  | JNum int
  | JStr string
  | JArr "json list"
  | JObj "(string \<times> json) list"

text \<open>
  Property access \<open>v.k\<close> for a key that no prototype defines (\<open>gameSlug\<close>, \<open>score\<close>):
  \<open>null.k\<close> throws, an object yields its own property or \<open>undefined\<close>, every other value
  yields \<open>undefined\<close>.
\<close>

fun get_prop :: "json \<Rightarrow> string \<Rightarrow> exn + json option" where
  "get_prop JNull k = Inl TypeError"
| "get_prop (JObj kvs) k = Inr (map_of kvs k)"
| "get_prop v k = Inr None"

text \<open>\<open>Array.prototype.filter\<close> with a callback that may throw.\<close>

fun array_filter :: "('a \<Rightarrow> exn + bool) \<Rightarrow> 'a list \<Rightarrow> exn + 'a list" where
  "array_filter p [] = Inr []"
| "array_filter p (x # xs) =
     (case p x of
        Inl e \<Rightarrow> Inl e
      | Inr b \<Rightarrow>
          (case array_filter p xs of
             Inl e \<Rightarrow> Inl e
           | Inr ys \<Rightarrow> Inr (if b then x # ys else ys)))"

text \<open>
  \<open>Array.prototype.sort\<close> with a comparator. The comparator's result is a number or NaN
  (\<open>None\<close>), and NaN counts as 0. The sort is stable (ECMAScript 2019): an element goes in
  front of the first one it does not sort after. For a consistent comparator this is the
  one stable order the standard prescribes; for an inconsistent one the standard leaves
  the order to the implementation and this insertion order is one choice.
\<close>

fun sort_insert :: "('a \<Rightarrow> 'a \<Rightarrow> exn + int option) \<Rightarrow> 'a \<Rightarrow> 'a list \<Rightarrow> exn + 'a list" where
  "sort_insert cmp x [] = Inr [x]"
| "sort_insert cmp x (y # ys) =
     (case cmp x y of
        Inl e \<Rightarrow> Inl e
      | Inr v \<Rightarrow>
          if (case v of None \<Rightarrow> True | Some n \<Rightarrow> n \<le> 0) then Inr (x # y # ys)
          else (case sort_insert cmp x ys of
                  Inl e \<Rightarrow> Inl e
                | Inr zs \<Rightarrow> Inr (y # zs)))"

fun array_sort :: "('a \<Rightarrow> 'a \<Rightarrow> exn + int option) \<Rightarrow> 'a list \<Rightarrow> exn + 'a list" where
  "array_sort cmp [] = Inr []"
| "array_sort cmp (x # xs) =
     (case array_sort cmp xs of
        Inl e \<Rightarrow> Inl e
      | Inr ys \<Rightarrow> sort_insert cmp x ys)"

text \<open>\<open>xs.slice(0, n)\<close>: a negative \<open>n\<close> counts from the end.\<close>

definition slice0 :: "int \<Rightarrow> 'a list \<Rightarrow> 'a list" where
  "slice0 n xs = (if n < 0 then take (nat (int (length xs) + n)) xs else take (nat n) xs)"

section \<open>The game loop (src/client/src/lib/game-engine.ts)\<close>

record GameState =
  score :: int
  isPlaying :: bool
  isPaused :: bool
  gameOver :: bool

text \<open>
  The engine object. \<open>concrete\<close> holds the private fields of the concrete game, \<open>observer\<close>
  is whatever the two callbacks write to (React state, the score cache). The callbacks are
  taken to return and not to call the engine; the engine catches no exception of theirs.
  \<open>frames\<close> and \<open>lastHandle\<close> belong to the browser: the handles of the frame callbacks
  that were requested and have neither run nor been cancelled, and the last handle given
  out (handles are positive).
\<close>

record ('g, 'w) GameEngine =
  state :: GameState
  animationId :: "nat option"
  lastTime :: int
  onScoreUpdate :: "(int \<Rightarrow> 'w \<Rightarrow> 'w) option"
  onGameOver :: "(int \<Rightarrow> 'w \<Rightarrow> 'w) option"
  concrete :: 'g
  observer :: 'w
  frames :: "nat list"
  lastHandle :: nat

text \<open>
  What a concrete game supplies. A hook reads and writes its own fields, reads the
  engine's state, and calls the two protected primitives \<open>updateScore\<close> and \<open>stop\<close>; no
  game of the repository writes \<open>this.state\<close> itself. \<open>render\<close> only draws and
  \<open>bindEvents\<close> only registers DOM listeners, so neither appears.
\<close>

datatype call = UpdateScore int | Stop

record 'g GameClass =
  update :: "int \<Rightarrow> 'g \<Rightarrow> GameState \<Rightarrow> 'g \<times> call list"
  reset :: "'g \<Rightarrow> GameState \<Rightarrow> 'g \<times> call list"

definition GameEngine_new :: "'g \<Rightarrow> 'w \<Rightarrow> ('g, 'w) GameEngine" where
  "GameEngine_new g w =
     \<lparr>state = \<lparr>score = 0, isPlaying = False, isPaused = False, gameOver = False\<rparr>,
      animationId = None, lastTime = 0, onScoreUpdate = None, onGameOver = None,
      concrete = g, observer = w, frames = [], lastHandle = 0\<rparr>"

definition setCallbacks ::
  "(int \<Rightarrow> 'w \<Rightarrow> 'w) option \<Rightarrow> (int \<Rightarrow> 'w \<Rightarrow> 'w) option \<Rightarrow> ('g, 'w) GameEngine \<Rightarrow> ('g, 'w) GameEngine" where
  "setCallbacks f g e = e\<lparr>onScoreUpdate := f, onGameOver := g\<rparr>"

definition getState :: "('g, 'w) GameEngine \<Rightarrow> GameState" where
  "getState e = state e"

definition updateScore :: "int \<Rightarrow> ('g, 'w) GameEngine \<Rightarrow> ('g, 'w) GameEngine" where
  "updateScore newScore e =
     (let e1 = e\<lparr>state := (state e)\<lparr>score := newScore\<rparr>\<rparr>
      in case onScoreUpdate e1 of
           None \<Rightarrow> e1
         | Some cb \<Rightarrow> e1\<lparr>observer := cb newScore (observer e1)\<rparr>)"

definition cancelAnimationFrame :: "nat \<Rightarrow> ('g, 'w) GameEngine \<Rightarrow> ('g, 'w) GameEngine" where
  "cancelAnimationFrame h e = e\<lparr>frames := removeAll h (frames e)\<rparr>"

definition stop :: "('g, 'w) GameEngine \<Rightarrow> ('g, 'w) GameEngine" where
  "stop e =
     (let e1 = (case animationId e of
                  None \<Rightarrow> e
                | Some h \<Rightarrow>
                    if h \<noteq> 0 then (cancelAnimationFrame h e)\<lparr>animationId := None\<rparr> else e);
          e2 = e1\<lparr>state := (state e1)\<lparr>isPlaying := False, gameOver := True\<rparr>\<rparr>
      in case onGameOver e2 of
           None \<Rightarrow> e2
         | Some cb \<Rightarrow> e2\<lparr>observer := cb (score (state e2)) (observer e2)\<rparr>)"

fun run_calls :: "call list \<Rightarrow> ('g, 'w) GameEngine \<Rightarrow> ('g, 'w) GameEngine" where
  "run_calls [] e = e"
| "run_calls (UpdateScore n # cs) e = run_calls cs (updateScore n e)"
| "run_calls (Stop # cs) e = run_calls cs (stop e)"

definition run_update :: "'g GameClass \<Rightarrow> int \<Rightarrow> ('g, 'w) GameEngine \<Rightarrow> ('g, 'w) GameEngine" where
  "run_update G deltaTime e =
     (case update G deltaTime (concrete e) (state e) of
        (g, cs) \<Rightarrow> run_calls cs (e\<lparr>concrete := g\<rparr>))"

definition run_reset :: "'g GameClass \<Rightarrow> ('g, 'w) GameEngine \<Rightarrow> ('g, 'w) GameEngine" where
  "run_reset G e =
     (case reset G (concrete e) (state e) of
        (g, cs) \<Rightarrow> run_calls cs (e\<lparr>concrete := g\<rparr>))"

definition requestAnimationFrame :: "('g, 'w) GameEngine \<Rightarrow> nat \<times> ('g, 'w) GameEngine" where
  "requestAnimationFrame e =
     (let h = Suc (lastHandle e) in (h, e\<lparr>frames := frames e @ [h], lastHandle := h\<rparr>))"

definition gameLoop :: "'g GameClass \<Rightarrow> int \<Rightarrow> ('g, 'w) GameEngine \<Rightarrow> ('g, 'w) GameEngine" where
  "gameLoop G currentTime e =
     (if \<not> isPlaying (state e) then e
      else
        let deltaTime = currentTime - lastTime e;
            e1 = e\<lparr>lastTime := currentTime\<rparr>;
            e2 = (if \<not> isPaused (state e1) \<and> \<not> gameOver (state e1)
                  then run_update G deltaTime e1 else e1)
        in case requestAnimationFrame e2 of
             (h, e3) \<Rightarrow> e3\<lparr>animationId := Some h\<rparr>)"

text \<open>\<open>now\<close> is the reading of \<open>performance.now()\<close>.\<close>

definition start :: "'g GameClass \<Rightarrow> int \<Rightarrow> ('g, 'w) GameEngine \<Rightarrow> ('g, 'w) GameEngine" where
  "start G now e =
     (if isPlaying (state e) then e
      else
        let e1 = e\<lparr>state := (state e)\<lparr>isPlaying := True, gameOver := False, isPaused := False\<rparr>,
                   lastTime := now\<rparr>
        in gameLoop G (lastTime e1) e1)"

definition pause :: "('g, 'w) GameEngine \<Rightarrow> ('g, 'w) GameEngine" where
  "pause e = e\<lparr>state := (state e)\<lparr>isPaused := \<not> isPaused (state e)\<rparr>\<rparr>"

definition restart :: "'g GameClass \<Rightarrow> int \<Rightarrow> ('g, 'w) GameEngine \<Rightarrow> ('g, 'w) GameEngine" where
  "restart G now e = start G now (run_reset G (stop e))"

definition destroy :: "('g, 'w) GameEngine \<Rightarrow> ('g, 'w) GameEngine" where
  "destroy e = stop e"

text \<open>
  What can happen to an engine: a call of one of the four public operations, the browser
  running the oldest pending frame callback at time \<open>t\<close>, or a DOM event handler of the
  game (a click, a key) calling the protected primitives.
\<close>

datatype operation = Start int | Pause | StopGame | Restart int | Frame int | Input "call list"

fun step :: "'g GameClass \<Rightarrow> ('g, 'w) GameEngine \<Rightarrow> operation \<Rightarrow> ('g, 'w) GameEngine" where
  "step G e (Start now) = start G now e"
| "step G e Pause = pause e"
| "step G e StopGame = stop e"
| "step G e (Restart now) = restart G now e"
| "step G e (Frame t) =
     (case frames e of
        [] \<Rightarrow> e
      | h # hs \<Rightarrow> gameLoop G t (e\<lparr>frames := hs\<rparr>))"
| "step G e (Input cs) = run_calls cs e"

definition run :: "'g GameClass \<Rightarrow> operation list \<Rightarrow> ('g, 'w) GameEngine \<Rightarrow> ('g, 'w) GameEngine" where
  "run G ops e = foldl (step G) e ops"

text \<open>
  \<open>restart\<close> is \<open>stop\<close>, \<open>reset\<close>, \<open>start\<close>, and \<open>start\<close> calls \<open>gameLoop(this.lastTime)\<close>
  itself, so one \<open>update\<close> runs inside \<open>restart\<close>, with \<open>deltaTime\<close> 0. \<open>first_frame\<close> is
  the list of calls this \<open>update\<close> makes, and \<open>last_score cs s\<close> is the score a list of
  calls leaves when it starts from score \<open>s\<close>.
\<close>

definition first_frame :: "'g GameClass \<Rightarrow> ('g, 'w) GameEngine \<Rightarrow> call list" where
  "first_frame G e =
     (let e1 = run_reset G (stop e)
      in snd (update G 0 (concrete e1)
                ((state e1)\<lparr>isPlaying := True, gameOver := False, isPaused := False\<rparr>)))"

fun last_score :: "call list \<Rightarrow> int \<Rightarrow> int" where
  "last_score [] s = s"
| "last_score (UpdateScore n # cs) s = last_score cs n"
| "last_score (Stop # cs) s = last_score cs s"

subsection \<open>Color Trap, one of the six games (class ColorTrapGameEngine)\<close>

text \<open>
  The fields its \<open>update\<close> and \<open>reset\<close> use. The buttons of the level are drawn at random
  and only matter to clicks and drawing.
\<close>

record ColorTrap =
  timeLeft :: int
  lastTimeUpdate :: int
  correctClicks :: int

definition ColorTrap_update :: "int \<Rightarrow> ColorTrap \<Rightarrow> GameState \<Rightarrow> ColorTrap \<times> call list" where
  "ColorTrap_update deltaTime g st =
     (let g1 = g\<lparr>lastTimeUpdate := lastTimeUpdate g + deltaTime\<rparr>
      in if lastTimeUpdate g1 \<ge> 1000
         then (let g2 = g1\<lparr>timeLeft := timeLeft g1 - 1, lastTimeUpdate := 0\<rparr>
               in (g2, if timeLeft g2 \<le> 0 then [Stop] else []))
         else (g1, []))"

definition ColorTrap_reset :: "ColorTrap \<Rightarrow> GameState \<Rightarrow> ColorTrap \<times> call list" where
  "ColorTrap_reset g st =
     (g\<lparr>timeLeft := 30, correctClicks := 0, lastTimeUpdate := 0\<rparr>, [UpdateScore 0])"

definition ColorTrapGameEngine :: "ColorTrap GameClass" where
  "ColorTrapGameEngine = \<lparr>update = ColorTrap_update, reset = ColorTrap_reset\<rparr>"


subsection \<open>Paper Plane (class PaperPlaneGameEngine)\<close>

text \<open>
  Its \<open>update\<close> calls \<open>updateScore\<close> on every frame, the first one after a \<open>reset\<close>
  included. Its numbers are doubles in the source and exact fractions here, so rounding
  is outside the model.
  \<open>Math.random()\<close> is read from the sequence \<open>Math_random\<close>, of which \<open>randomCalls\<close>
  values are used up. \<open>config\<close> is the constructor's argument, a field of the base
  class that only this game's model needs. The \<open>type\<close> of an obstacle is always
  \<open>'pipe'\<close> and is read by \<open>render\<close> only. \<open>gravity\<close>, \<open>jumpPower\<close> and
  \<open>obstacleSpacing\<close> are fields that are never assigned.
\<close>

record GameConfig =
  width :: rat
  height :: rat
  fps :: rat

record Plane =
  x' :: rat
  y' :: rat
  velocityY :: rat
  rotation :: rat

record Obstacle =
  x' :: rat
  y' :: rat
  width :: rat
  height :: rat

record PaperPlane =
  config :: GameConfig
  plane :: Plane
  obstacles :: "Obstacle list"
  gameSpeed :: rat
  lastObstacleX :: rat
  distance :: rat
  Math_random :: "nat \<Rightarrow> rat"
  randomCalls :: nat

definition gravity :: rat where
  "gravity = 0.6"

definition jumpPower :: rat where
  "jumpPower = - 12"

definition obstacleSpacing :: rat where
  "obstacleSpacing = 300"

definition createPlane :: "GameConfig \<Rightarrow> Plane" where
  "createPlane cfg = \<lparr>Plane.x' = 80, y' = GameConfig.height cfg / 2, velocityY = 0, rotation = 0\<rparr>"

text \<open>The handler of a click, a touch or the space key.\<close>

definition handleInput :: "(PaperPlane, 'w) GameEngine \<Rightarrow> (PaperPlane, 'w) GameEngine" where
  "handleInput e =
     (if isPlaying (state e)
      then e\<lparr>concrete := (concrete e)\<lparr>plane := (plane (concrete e))\<lparr>velocityY := jumpPower\<rparr>\<rparr>\<rparr>
      else e)"

definition generateObstacle :: "PaperPlane \<Rightarrow> PaperPlane" where
  "generateObstacle g =
     (let gapSize = 120;
          minHeight = 50;
          maxHeight = GameConfig.height (config g) - gapSize - minHeight;
          topHeight = minHeight + Math_random g (randomCalls g) * (maxHeight - minHeight)
      in g\<lparr>obstacles := obstacles g @
              [\<lparr>Obstacle.x' = GameConfig.width (config g), y' = 0, width = 60, height = topHeight\<rparr>,
               \<lparr>Obstacle.x' = GameConfig.width (config g), y' = topHeight + gapSize, width = 60,
                 height = GameConfig.height (config g) - (topHeight + gapSize)\<rparr>],
            lastObstacleX := GameConfig.width (config g),
            randomCalls := Suc (randomCalls g)\<rparr>)"

definition checkCollisions :: "PaperPlane \<Rightarrow> bool" where
  "checkCollisions g \<longleftrightarrow>
     (if Plane.y' (plane g) \<le> 0 \<or> Plane.y' (plane g) \<ge> GameConfig.height (config g) - 20 then True
      else list_ex (\<lambda>obstacle.
             Plane.x' (plane g) < Obstacle.x' obstacle + Obstacle.width obstacle \<and>
             Plane.x' (plane g) + 40 > Obstacle.x' obstacle \<and>
             Plane.y' (plane g) < Obstacle.y' obstacle + Obstacle.height obstacle \<and>
             Plane.y' (plane g) + 20 > Obstacle.y' obstacle) (obstacles g))"

text \<open>
  \<open>update\<close> does not read \<open>deltaTime\<close>. Its loop over the obstacles runs from the last
  index down, moves each one and splices it out once it has left the screen: a \<open>map\<close>
  and then a \<open>filter\<close>.
\<close>

definition PaperPlane_update :: "int \<Rightarrow> PaperPlane \<Rightarrow> GameState \<Rightarrow> PaperPlane \<times> call list" where
  "PaperPlane_update deltaTime g st =
     (let p1 = (plane g)\<lparr>velocityY := velocityY (plane g) + gravity\<rparr>;
          p2 = p1\<lparr>Plane.y' := Plane.y' p1 + velocityY p1\<rparr>;
          p3 = p2\<lparr>rotation := max (- 30) (min 30 (velocityY p2 * 2))\<rparr>;
          g1 = g\<lparr>plane := p3, distance := distance g + gameSpeed g\<rparr>;
          newScore = \<lfloor>distance g1 / 10\<rfloor>;
          g2 = (if GameConfig.width (config g1) - lastObstacleX g1 \<ge> obstacleSpacing
                then generateObstacle g1 else g1);
          g3 = g2\<lparr>obstacles :=
                   filter (\<lambda>obstacle. \<not> Obstacle.x' obstacle + Obstacle.width obstacle < 0)
                     (map (\<lambda>obstacle. obstacle\<lparr>Obstacle.x' := Obstacle.x' obstacle - gameSpeed g2\<rparr>)
                        (obstacles g2))\<rparr>;
          g4 = g3\<lparr>gameSpeed := gameSpeed g3 + 0.002\<rparr>
      in (g4, UpdateScore newScore # (if checkCollisions g4 then [Stop] else [])))"

definition PaperPlane_reset :: "PaperPlane \<Rightarrow> GameState \<Rightarrow> PaperPlane \<times> call list" where
  "PaperPlane_reset g st =
     (g\<lparr>plane := createPlane (config g), obstacles := [], distance := 0, gameSpeed := 3,
        lastObstacleX := 0\<rparr>,
      [UpdateScore 0])"

definition PaperPlaneGameEngine :: "PaperPlane GameClass" where
  "PaperPlaneGameEngine = \<lparr>update = PaperPlane_update, reset = PaperPlane_reset\<rparr>"

definition PaperPlane_new :: "GameConfig \<Rightarrow> (nat \<Rightarrow> rat) \<Rightarrow> PaperPlane" where
  "PaperPlane_new cfg rnd =
     \<lparr>config = cfg, plane = createPlane cfg, obstacles = [], gameSpeed = 3, lastObstacleX = 0,
      distance = 0, Math_random = rnd, randomCalls = 0\<rparr>"

text \<open>
  The callbacks every game component registers, reduced to what they record: the score
  shown, and the scores handed to the cache at game over (oldest first).
\<close>

record Component =
  shown :: int
  saved :: "int list"

definition Component_new :: Component where
  "Component_new = \<lparr>shown = 0, saved = []\<rparr>"

definition mounted :: "'g \<Rightarrow> ('g, Component) GameEngine" where
  "mounted g =
     setCallbacks (Some (\<lambda>newScore c. c\<lparr>shown := newScore\<rparr>))
       (Some (\<lambda>finalScore c. c\<lparr>saved := saved c @ [finalScore]\<rparr>))
       (GameEngine_new g Component_new)"

section \<open>The client's score cache (src/client/src/lib/storage.ts)\<close>

text \<open>
  What \<open>localStorage\<close> holds under a key, seen through \<open>JSON.parse\<close> and truthiness:
  the empty string, a text that \<open>JSON.parse\<close> rejects, or a JSON text (given by the value
  it parses to). \<open>JSON.stringify\<close> of a JSON value is a text that parses back to it.
  \<open>getItem\<close> and \<open>setItem\<close> themselves are taken to succeed.
\<close>

datatype stored = Empty_text | Malformed | Json_text json

type_synonym localStorage = "string \<rightharpoonup> stored"

definition SCORES_KEY :: string where
  "SCORES_KEY = ''taptime-scores''"

definition PREFERENCES_KEY :: string where
  "PREFERENCES_KEY = ''taptime-preferences''"

fun JSON_parse :: "stored \<Rightarrow> exn + json" where
  "JSON_parse (Json_text v) = Inr v"
| "JSON_parse Empty_text = Inl SyntaxError"
| "JSON_parse Malformed = Inl SyntaxError"

record GameScore =
  gameSlug :: string
  score :: int
  playerName :: "string option"
  timestamp :: int
  gameData :: "json option"

text \<open>A score object as \<open>JSON.stringify\<close> writes it: an \<open>undefined\<close> property is left out.\<close>

definition to_json :: "GameScore \<Rightarrow> json" where
  "to_json s =
     JObj ([(''gameSlug'', JStr (gameSlug s)), (''score'', JNum (GameScore.score s)),
            (''timestamp'', JNum (timestamp s))]
           @ (case playerName s of None \<Rightarrow> [] | Some p \<Rightarrow> [(''playerName'', JStr p)])
           @ (case gameData s of None \<Rightarrow> [] | Some d \<Rightarrow> [(''gameData'', d)]))"

text \<open>The callbacks \<open>s => s.gameSlug === slug\<close> and \<open>s => s.gameSlug !== slug\<close>.\<close>

definition slug_is :: "string \<Rightarrow> json \<Rightarrow> exn + bool" where
  "slug_is slug s =
     (case get_prop s ''gameSlug'' of Inl e \<Rightarrow> Inl e | Inr v \<Rightarrow> Inr (v = Some (JStr slug)))"

definition slug_is_not :: "string \<Rightarrow> json \<Rightarrow> exn + bool" where
  "slug_is_not slug s =
     (case get_prop s ''gameSlug'' of Inl e \<Rightarrow> Inl e | Inr v \<Rightarrow> Inr (v \<noteq> Some (JStr slug)))"

text \<open>\<open>v.filter(p)\<close> on a parsed value: only an array has the method.\<close>

definition method_filter :: "json \<Rightarrow> (json \<Rightarrow> exn + bool) \<Rightarrow> exn + json" where
  "method_filter v p =
     (case v of
        JArr xs \<Rightarrow> (case array_filter p xs of Inl e \<Rightarrow> Inl e | Inr ys \<Rightarrow> Inr (JArr ys))
      | _ \<Rightarrow> Inl TypeError)"

text \<open>
  The operand conversion of \<open>b.score - a.score\<close>. \<open>undefined\<close> is NaN, \<open>null\<close> is 0, a
  boolean is 0 or 1. What a string, an array or an object converts to (a number, NaN, or
  a TypeError for an object that cannot be made primitive) is ECMAScript's business and
  is the parameter \<open>conv\<close>.
\<close>

definition ToNumber :: "(json \<Rightarrow> exn + int option) \<Rightarrow> json option \<Rightarrow> exn + int option" where
  "ToNumber conv v =
     (case v of
        None \<Rightarrow> Inr None
      | Some JNull \<Rightarrow> Inr (Some 0)
      | Some (JBool b) \<Rightarrow> Inr (Some (if b then 1 else 0))
      | Some (JNum n) \<Rightarrow> Inr (Some n)
      | Some w \<Rightarrow> conv w)"

text \<open>The comparator \<open>(a, b) => b.score - a.score\<close> on parsed values.\<close>

definition by_score_desc :: "(json \<Rightarrow> exn + int option) \<Rightarrow> json \<Rightarrow> json \<Rightarrow> exn + int option" where
  "by_score_desc conv a b =
     (case get_prop b ''score'' of
        Inl e \<Rightarrow> Inl e
      | Inr sb \<Rightarrow>
          (case get_prop a ''score'' of
             Inl e \<Rightarrow> Inl e
           | Inr sa \<Rightarrow>
               (case ToNumber conv sb of
                  Inl e \<Rightarrow> Inl e
                | Inr x \<Rightarrow>
                    (case ToNumber conv sa of
                       Inl e \<Rightarrow> Inl e
                     | Inr y \<Rightarrow>
                         Inr (case x of None \<Rightarrow> None
                              | Some m \<Rightarrow> (case y of None \<Rightarrow> None | Some n \<Rightarrow> Some (m - n)))))))"

text \<open>The body of the \<open>try\<close> in \<open>getScores\<close>, and \<open>getScores\<close> with its \<open>catch\<close>.\<close>

definition getScores_try :: "localStorage \<Rightarrow> string option \<Rightarrow> exn + json" where
  "getScores_try ls slug =
     (case JSON_parse (case ls SCORES_KEY of
                         None \<Rightarrow> Json_text (JArr [])
                       | Some Empty_text \<Rightarrow> Json_text (JArr [])
                       | Some t \<Rightarrow> t) of
        Inl e \<Rightarrow> Inl e
      | Inr scores \<Rightarrow>
          (case slug of
             None \<Rightarrow> Inr scores
           | Some g \<Rightarrow> if g \<noteq> [] then method_filter scores (slug_is g) else Inr scores))"

definition LocalStorage_getScores :: "localStorage \<Rightarrow> string option \<Rightarrow> json" where
  "LocalStorage_getScores ls slug =
     (case getScores_try ls slug of Inl e \<Rightarrow> JArr [] | Inr v \<Rightarrow> v)"

definition LocalStorage_getTopScores ::
  "(json \<Rightarrow> exn + int option) \<Rightarrow> localStorage \<Rightarrow> string \<Rightarrow> int option \<Rightarrow> exn + json list" where
  "LocalStorage_getTopScores conv ls slug limit =
     (case LocalStorage_getScores ls (Some slug) of
        JArr xs \<Rightarrow>
          (case array_sort (by_score_desc conv) xs of
             Inl e \<Rightarrow> Inl e
           | Inr ys \<Rightarrow> Inr (slice0 (case limit of None \<Rightarrow> 10 | Some n \<Rightarrow> n) ys))
      | _ \<Rightarrow> Inl TypeError)"

definition LocalStorage_getBestScore ::
  "(json \<Rightarrow> exn + int option) \<Rightarrow> localStorage \<Rightarrow> string \<Rightarrow> exn + json option" where
  "LocalStorage_getBestScore conv ls slug =
     (case LocalStorage_getTopScores conv ls slug (Some 1) of
        Inl e \<Rightarrow> Inl e
      | Inr [] \<Rightarrow> Inr (Some (JNum 0))
      | Inr (s # rest) \<Rightarrow> get_prop s ''score'')"

definition default_preferences :: json where
  "default_preferences = JObj [(''theme'', JStr ''system''), (''soundEnabled'', JBool True)]"

definition LocalStorage_getPreferences :: "localStorage \<Rightarrow> json" where
  "LocalStorage_getPreferences ls =
     (case ls PREFERENCES_KEY of
        None \<Rightarrow> default_preferences
      | Some Empty_text \<Rightarrow> default_preferences
      | Some t \<Rightarrow> (case JSON_parse t of Inl e \<Rightarrow> default_preferences | Inr v \<Rightarrow> v))"

definition LocalStorage_saveScore ::
  "(json \<Rightarrow> exn + int option) \<Rightarrow> GameScore \<Rightarrow> localStorage \<Rightarrow> exn + localStorage" where
  "LocalStorage_saveScore conv s ls =
     (case LocalStorage_getScores ls None of
        JArr xs \<Rightarrow>
          (let scores = xs @ [to_json s]
           in case array_filter (slug_is (gameSlug s)) scores of
                Inl e \<Rightarrow> Inl e
              | Inr gameScores \<Rightarrow>
                  (case array_filter (slug_is_not (gameSlug s)) scores of
                     Inl e \<Rightarrow> Inl e
                   | Inr otherScores \<Rightarrow>
                       (case array_sort (by_score_desc conv) gameScores of
                          Inl e \<Rightarrow> Inl e
                        | Inr ranked \<Rightarrow>
                            Inr (ls(SCORES_KEY \<mapsto>
                                   Json_text (JArr (otherScores @ slice0 100 ranked)))))))
      | _ \<Rightarrow> Inl TypeError)"

text \<open>A run of \<open>saveScore\<close> calls; it ends at the first one that throws.\<close>

fun saveScores ::
  "(json \<Rightarrow> exn + int option) \<Rightarrow> GameScore list \<Rightarrow> localStorage \<Rightarrow> exn + localStorage" where
  "saveScores conv [] ls = Inr ls"
| "saveScores conv (s # ss) ls =
     (case LocalStorage_saveScore conv s ls of
        Inl e \<Rightarrow> Inl e
      | Inr ls' \<Rightarrow> saveScores conv ss ls')"

text \<open>
  The score records a cache holds, in stored order, when its text is an array of score
  objects; a missing, empty or unparsable text reads as no record.
\<close>

definition holds_scores :: "localStorage \<Rightarrow> GameScore list \<Rightarrow> bool" where
  "holds_scores ls xs \<longleftrightarrow>
     (case ls SCORES_KEY of
        None \<Rightarrow> xs = []
      | Some Empty_text \<Rightarrow> xs = []
      | Some Malformed \<Rightarrow> xs = []
      | Some (Json_text v) \<Rightarrow> v = JArr (map to_json xs))"

text \<open>
  One \<open>saveScore\<close> on a cache of score records, row by row: the rows of the other games
  in their order, then the 100 best rows of the saved score's game.
\<close>

definition rows_after_save :: "GameScore \<Rightarrow> GameScore list \<Rightarrow> GameScore list" where
  "rows_after_save s xs =
     filter (\<lambda>x. gameSlug x \<noteq> gameSlug s) (xs @ [s])
     @ take 100 (sort_key (\<lambda>x. - GameScore.score x) (filter (\<lambda>x. gameSlug x = gameSlug s) (xs @ [s])))"

section \<open>The in-memory store (class MemStorage and the schema's row types)\<close>

text \<open>
  The row types of the schema. An insert type is its row type without the generated
  columns, so a row is a record extension of it. A nullable column is an \<open>option\<close>;
  timestamps are milliseconds.
\<close>

record InsertGame =
  name :: string
  slug :: string
  description :: string
  category :: string
  size' :: string
  thumbnail :: "string option"
  isActive :: "int option"

record Game = InsertGame +
  id' :: string
  createdAt :: "int option"

record InsertScore =
  gameId :: string
  userId :: "string option"
  playerName :: "string option"
  score :: int
  gameData :: "json option"

record Score = InsertScore +
  id' :: string
  createdAt :: "int option"

record InsertChallenge =
  gameId :: string
  title :: string
  description :: string
  target :: int
  reward :: int
  startDate :: int
  endDate :: int
  isActive :: "int option"

record Challenge = InsertChallenge +
  id' :: string

text \<open>
  The store with what it reads from its process: the clock behind \<open>new Date()\<close> and
  the identifiers \<open>randomUUID()\<close> hands out (\<open>uuid n\<close> is the n-th one drawn). The
  \<open>users\<close> map is reached by no route and is left out. \<open>AList.update\<close> is \<open>Map.set\<close>:
  a new key goes to the end, a known key keeps its place.
\<close>

record MemStorage =
  games :: "(string \<times> Game) list"
  scores :: "(string \<times> Score) list"
  challenges :: "(string \<times> Challenge) list"
  clock :: int
  uuid :: "nat \<Rightarrow> string"
  drawn :: nat

definition randomUUID :: "MemStorage \<Rightarrow> string \<times> MemStorage" where
  "randomUUID st = (uuid st (drawn st), st\<lparr>drawn := Suc (drawn st)\<rparr>)"

definition MemStorage_createGame :: "InsertGame \<Rightarrow> MemStorage \<Rightarrow> Game \<times> MemStorage" where
  "MemStorage_createGame insertGame st =
     (case randomUUID st of
        (i, st1) \<Rightarrow>
          (let game = InsertGame.extend insertGame (Game.fields i (Some (clock st1)))
           in (game, st1\<lparr>games := AList.update i game (games st1)\<rparr>)))"

definition MemStorage_createChallenge ::
  "InsertChallenge \<Rightarrow> MemStorage \<Rightarrow> Challenge \<times> MemStorage" where
  "MemStorage_createChallenge insertChallenge st =
     (case randomUUID st of
        (i, st1) \<Rightarrow>
          (let challenge = InsertChallenge.extend insertChallenge (Challenge.fields i)
           in (challenge, st1\<lparr>challenges := AList.update i challenge (challenges st1)\<rparr>)))"

definition MemStorage_createScore :: "InsertScore \<Rightarrow> MemStorage \<Rightarrow> Score \<times> MemStorage" where
  "MemStorage_createScore insertScore st =
     (case randomUUID st of
        (i, st1) \<Rightarrow>
          (let score = InsertScore.extend insertScore (Score.fields i (Some (clock st1)))
           in (score, st1\<lparr>scores := AList.update i score (scores st1)\<rparr>)))"

definition MemStorage_getGames :: "MemStorage \<Rightarrow> Game list" where
  "MemStorage_getGames st = filter (\<lambda>game. InsertGame.isActive game = Some 1) (map snd (games st))"

definition MemStorage_getGame :: "string \<Rightarrow> MemStorage \<Rightarrow> Game option" where
  "MemStorage_getGame i st = map_of (games st) i"

definition MemStorage_getGameBySlug :: "string \<Rightarrow> MemStorage \<Rightarrow> Game option" where
  "MemStorage_getGameBySlug s st = find (\<lambda>game. slug game = s) (map snd (games st))"

text \<open>
  \<open>getScores(gameId?, limit = 100)\<close>: the filter is skipped for a missing or empty
  \<open>gameId\<close>. The comparator cannot throw on rows, but the sort is the same builtin.
\<close>

definition MemStorage_getScores ::
  "string option \<Rightarrow> int option \<Rightarrow> MemStorage \<Rightarrow> exn + Score list" where
  "MemStorage_getScores g limit st =
     (let all_scores = map snd (scores st);
          selected = (case g of
                        None \<Rightarrow> all_scores
                      | Some i \<Rightarrow>
                          if i \<noteq> [] then filter (\<lambda>score. InsertScore.gameId score = i) all_scores
                          else all_scores)
      in case array_sort (\<lambda>a b. Inr (Some (InsertScore.score b - InsertScore.score a))) selected of
           Inl e \<Rightarrow> Inl e
         | Inr ranked \<Rightarrow> Inr (slice0 (case limit of None \<Rightarrow> 100 | Some n \<Rightarrow> n) ranked))"

definition MemStorage_getTopScores :: "string \<Rightarrow> int \<Rightarrow> MemStorage \<Rightarrow> exn + Score list" where
  "MemStorage_getTopScores g limit st = MemStorage_getScores (Some g) (Some limit) st"

definition MemStorage_getChallenges :: "MemStorage \<Rightarrow> Challenge list" where
  "MemStorage_getChallenges st =
     filter (\<lambda>challenge. InsertChallenge.isActive challenge = Some 1) (map snd (challenges st))"

text \<open>The predicate of \<open>getActiveChallenge\<close>, with \<open>now\<close> the reading of the clock.\<close>

definition active_for :: "string \<Rightarrow> int \<Rightarrow> Challenge \<Rightarrow> bool" where
  "active_for g now challenge \<longleftrightarrow>
     InsertChallenge.gameId challenge = g \<and> InsertChallenge.isActive challenge = Some 1 \<and>
     startDate challenge \<le> now \<and> endDate challenge \<ge> now"

definition MemStorage_getActiveChallenge :: "string \<Rightarrow> MemStorage \<Rightarrow> Challenge option" where
  "MemStorage_getActiveChallenge g st =
     (let now = clock st in find (active_for g now) (map snd (challenges st)))"

subsection \<open>The store as the constructor leaves it\<close>

definition defaultGames :: "InsertGame list" where
  "defaultGames =
     [\<lparr>name = ''Bottle Flip 2D'', slug = ''bottle-flip-2d'',
       description = ''Perfect your timing! Flip the bottle and land it upright. Looks easy? Think again!'',
       category = ''Timing'', size' = ''2.1MB'', thumbnail = Some ''/games/bottle-flip.jpg'',
       isActive = Some 1\<rparr>,
      \<lparr>name = ''Color Trap'', slug = ''color-trap'',
       description = ''Match the colors as fast as you can! Wrong move = game over. Test your reflexes!'',
       category = ''Reaction'', size' = ''1.8MB'', thumbnail = Some ''/games/color-trap.jpg'',
       isActive = Some 1\<rparr>,
      \<lparr>name = ''Traffic Tapper'', slug = ''traffic-tapper'',
       description = ''Control traffic flow with perfect timing. One crash and it's over!'',
       category = ''Strategy'', size' = ''3.2MB'', thumbnail = Some ''/games/traffic-tapper.jpg'',
       isActive = Some 1\<rparr>,
      \<lparr>name = ''Paper Plane Flight'', slug = ''paper-plane-flight'',
       description = ''Guide your paper plane through endless obstacles. How far can you fly?'',
       category = ''Endless'', size' = ''2.7MB'', thumbnail = Some ''/games/paper-plane.jpg'',
       isActive = Some 1\<rparr>,
      \<lparr>name = ''Tap Snake'', slug = ''tap-snake'',
       description = ''Classic snake with a twist - just tap to turn! Simple but addictive.'',
       category = ''Classic'', size' = ''1.5MB'', thumbnail = Some ''/games/tap-snake.jpg'',
       isActive = Some 1\<rparr>,
      \<lparr>name = ''Doodle Stack'', slug = ''doodle-stack'',
       description = ''Stack random doodles as high as possible without letting them fall!'',
       category = ''Balance'', size' = ''2.9MB'', thumbnail = Some ''/games/doodle-stack.jpg'',
       isActive = Some 1\<rparr>]"

definition initializeGames :: "MemStorage \<Rightarrow> MemStorage" where
  "initializeGames st = foldl (\<lambda>s game. snd (MemStorage_createGame game s)) st defaultGames"

text \<open>\<open>games.find(g => g.slug === s)?.id || ''\<close>\<close>

definition game_id_or_empty :: "string \<Rightarrow> MemStorage \<Rightarrow> string" where
  "game_id_or_empty s st =
     (case find (\<lambda>g. slug g = s) (map snd (games st)) of None \<Rightarrow> [] | Some g \<Rightarrow> Game.id' g)"

definition day :: int where
  "day = 24 * 60 * 60 * 1000"

definition defaultChallenges :: "MemStorage \<Rightarrow> InsertChallenge list" where
  "defaultChallenges st =
     (let today = clock st; tomorrow = today + day
      in [\<lparr>gameId = game_id_or_empty ''bottle-flip-2d'' st, title = ''Bottle Flip Master'',
            description = ''Land 10 consecutive flips'', target = 10, reward = 500,
            startDate = today, endDate = tomorrow, isActive = Some 1\<rparr>,
          \<lparr>gameId = game_id_or_empty ''color-trap'' st, title = ''Speed Demon'',
            description = ''Complete Color Trap in under 30 seconds'', target = 30, reward = 750,
            startDate = tomorrow, endDate = tomorrow + day, isActive = Some 1\<rparr>,
          \<lparr>gameId = game_id_or_empty ''traffic-tapper'' st, title = ''Traffic Master'',
            description = ''Guide 100 vehicles without a crash'', target = 100, reward = 1000,
            startDate = tomorrow + day, endDate = tomorrow + 48 * 60 * 60 * 1000,
            isActive = Some 1\<rparr>])"

definition initializeChallenges :: "MemStorage \<Rightarrow> MemStorage" where
  "initializeChallenges st =
     foldl (\<lambda>s challenge. snd (MemStorage_createChallenge challenge s)) st (defaultChallenges st)"

definition MemStorage_new :: "int \<Rightarrow> (nat \<Rightarrow> string) \<Rightarrow> MemStorage" where
  "MemStorage_new now ids =
     initializeChallenges (initializeGames
       \<lparr>games = [], scores = [], challenges = [], clock = now, uuid = ids, drawn = 0\<rparr>)"

section \<open>The HTTP routes (src/server/routes.ts)\<close>

text \<open>
  The handlers go through the \<open>IStorage\<close> interface; an operation may reject (\<open>Inl\<close>).
  \<open>'s\<close> is the state of whatever implements it.
\<close>

record 's IStorage =
  getGames :: "'s \<Rightarrow> exn + Game list"
  getGameBySlug :: "string \<Rightarrow> 's \<Rightarrow> exn + Game option"
  getScores :: "string option \<Rightarrow> int option \<Rightarrow> 's \<Rightarrow> exn + Score list"
  createScore :: "InsertScore \<Rightarrow> 's \<Rightarrow> (exn + Score) \<times> 's"
  getTopScores :: "string \<Rightarrow> int \<Rightarrow> 's \<Rightarrow> exn + Score list"
  getChallenges :: "'s \<Rightarrow> exn + Challenge list"
  getActiveChallenge :: "string \<Rightarrow> 's \<Rightarrow> exn + Challenge option"

definition storage :: "MemStorage IStorage" where
  "storage =
     \<lparr>getGames = (\<lambda>st. Inr (MemStorage_getGames st)),
      getGameBySlug = (\<lambda>s st. Inr (MemStorage_getGameBySlug s st)),
      getScores = MemStorage_getScores,
      createScore = (\<lambda>d st. case MemStorage_createScore d st of (r, st') \<Rightarrow> (Inr r, st')),
      getTopScores = MemStorage_getTopScores,
      getChallenges = (\<lambda>st. Inr (MemStorage_getChallenges st)),
      getActiveChallenge = (\<lambda>g st. Inr (MemStorage_getActiveChallenge g st))\<rparr>"

text \<open>
  A response: the status and what \<open>res.json\<close> was given. \<open>res.json(undefined)\<close> sends
  an empty body, which is \<open>OneChallenge None\<close>.
\<close>

datatype body =
  GameList "Game list"
  | OneGame Game
  | ScoreList "Score list"
  | OneScore Score
  | ChallengeList "Challenge list"
  | OneChallenge "Challenge option"
  | Message string

record response =
  status :: nat
  body :: body

definition json_response :: "body \<Rightarrow> response" where
  "json_response b = \<lparr>status = 200, body = b\<rparr>"

definition error_response :: "nat \<Rightarrow> string \<Rightarrow> response" where
  "error_response code msg = \<lparr>status = code, body = Message msg\<rparr>"

subsection \<open>\<open>parseInt(req.query.limit as string) || 10\<close>\<close>

text \<open>
  \<open>parseInt\<close> without a radix: leading white space is skipped, then an optional sign, an
  optional \<open>0x\<close> (radix 16), and the longest run of digits; no digit gives NaN (\<open>None\<close>).
  Characters are 8-bit here, so white space is the Latin-1 part of the standard's list.
\<close>

definition is_space :: "char \<Rightarrow> bool" where
  "is_space c \<longleftrightarrow> (of_char c :: nat) \<in> {9, 10, 11, 12, 13, 32, 160}"

definition digit_of :: "char \<Rightarrow> nat option" where
  "digit_of c =
     (let n = (of_char c :: nat)
      in if 48 \<le> n \<and> n \<le> 57 then Some (n - 48)
         else if 97 \<le> n \<and> n \<le> 122 then Some (n - 87)
         else if 65 \<le> n \<and> n \<le> 90 then Some (n - 55)
         else None)"

definition in_radix :: "nat \<Rightarrow> char \<Rightarrow> bool" where
  "in_radix r c = (case digit_of c of None \<Rightarrow> False | Some d \<Rightarrow> d < r)"

definition digits_value :: "nat \<Rightarrow> string \<Rightarrow> nat" where
  "digits_value r ds =
     foldl (\<lambda>acc c. acc * r + (case digit_of c of None \<Rightarrow> 0 | Some d \<Rightarrow> d)) 0 ds"

definition parseInt :: "string \<Rightarrow> int option" where
  "parseInt input =
     (let s = dropWhile is_space input;
          negative = (case s of [] \<Rightarrow> False | c # cs \<Rightarrow> c = CHR ''-'');
          s1 = (case s of [] \<Rightarrow> [] | c # cs \<Rightarrow> if c = CHR ''-'' \<or> c = CHR ''+'' then cs else s);
          hex = (take 2 s1 = ''0x'' \<or> take 2 s1 = ''0X'');
          r = (if hex then 16 else 10);
          s2 = (if hex then drop 2 s1 else s1);
          ds = takeWhile (in_radix r) s2
      in if ds = [] then None
         else Some ((if negative then - 1 else 1) * int (digits_value r ds)))"

text \<open>An absent query parameter is \<open>undefined\<close>, which \<open>parseInt\<close> reads as the text.\<close>

definition query_limit :: "string option \<Rightarrow> int" where
  "query_limit q =
     (case parseInt (case q of None \<Rightarrow> ''undefined'' | Some s \<Rightarrow> s) of
        None \<Rightarrow> 10
      | Some n \<Rightarrow> if n = 0 then 10 else n)"

subsection \<open>The handlers\<close>

definition get_api_games :: "'s IStorage \<Rightarrow> 's \<Rightarrow> response" where
  "get_api_games db st =
     (case getGames db st of
        Inl e \<Rightarrow> error_response 500 ''Failed to fetch games''
      | Inr gs \<Rightarrow> json_response (GameList gs))"

definition get_api_games_slug :: "'s IStorage \<Rightarrow> string \<Rightarrow> 's \<Rightarrow> response" where
  "get_api_games_slug db s st =
     (case getGameBySlug db s st of
        Inl e \<Rightarrow> error_response 500 ''Failed to fetch game''
      | Inr None \<Rightarrow> error_response 404 ''Game not found''
      | Inr (Some game) \<Rightarrow> json_response (OneGame game))"

definition get_api_scores :: "'s IStorage \<Rightarrow> string option \<Rightarrow> string option \<Rightarrow> 's \<Rightarrow> response" where
  "get_api_scores db g q st =
     (let limit = query_limit q
      in case getScores db g (Some limit) st of
           Inl e \<Rightarrow> error_response 500 ''Failed to fetch scores''
         | Inr rows \<Rightarrow> json_response (ScoreList rows))"

text \<open>
  \<open>parse\<close> is \<open>insertScoreSchema.parse\<close>: it throws on a body that does not fit the
  schema and returns the insert record otherwise.
\<close>

definition post_api_scores ::
  "'s IStorage \<Rightarrow> ('b \<Rightarrow> exn + InsertScore) \<Rightarrow> 'b \<Rightarrow> 's \<Rightarrow> response \<times> 's" where
  "post_api_scores db parse b st =
     (case parse b of
        Inl e \<Rightarrow> (error_response 400 ''Invalid score data'', st)
      | Inr scoreData \<Rightarrow>
          (case createScore db scoreData st of
             (Inl e, st') \<Rightarrow> (error_response 400 ''Invalid score data'', st')
           | (Inr row, st') \<Rightarrow> (\<lparr>status = 201, body = OneScore row\<rparr>, st')))"

definition get_api_leaderboard :: "'s IStorage \<Rightarrow> string \<Rightarrow> string option \<Rightarrow> 's \<Rightarrow> response" where
  "get_api_leaderboard db g q st =
     (let limit = query_limit q
      in case getTopScores db g limit st of
           Inl e \<Rightarrow> error_response 500 ''Failed to fetch leaderboard''
         | Inr rows \<Rightarrow> json_response (ScoreList rows))"

definition get_api_challenges :: "'s IStorage \<Rightarrow> 's \<Rightarrow> response" where
  "get_api_challenges db st =
     (case getChallenges db st of
        Inl e \<Rightarrow> error_response 500 ''Failed to fetch challenges''
      | Inr cs \<Rightarrow> json_response (ChallengeList cs))"

definition get_api_challenges_gameId :: "'s IStorage \<Rightarrow> string \<Rightarrow> 's \<Rightarrow> response" where
  "get_api_challenges_gameId db g st =
     (case getActiveChallenge db g st of
        Inl e \<Rightarrow> error_response 500 ''Failed to fetch challenge''
      | Inr challenge \<Rightarrow> json_response (OneChallenge challenge))"

text \<open>
  \<open>insertScoreSchema\<close> on a JSON body: \<open>gameId\<close> a string and \<open>score\<close> a number are
  required; \<open>userId\<close>, \<open>playerName\<close> and \<open>gameData\<close> may be absent or null; the strings
  must be strings. Keys the schema does not know are dropped.
\<close>

definition optional_string :: "json option \<Rightarrow> exn + string option" where
  "optional_string v =
     (case v of
        None \<Rightarrow> Inr None
      | Some JNull \<Rightarrow> Inr None
      | Some (JStr s) \<Rightarrow> Inr (Some s)
      | Some w \<Rightarrow> Inl (Failure ''ZodError''))"

fun optional_json :: "json option \<Rightarrow> json option" where
  "optional_json (Some JNull) = None"
| "optional_json v = v"

definition insertScoreSchema_parse :: "json option \<Rightarrow> exn + InsertScore" where
  "insertScoreSchema_parse b =
     (case b of
        Some (JObj kvs) \<Rightarrow>
          (case (map_of kvs ''gameId'', map_of kvs ''score'',
                 optional_string (map_of kvs ''userId''),
                 optional_string (map_of kvs ''playerName'')) of
             (Some (JStr g), Some (JNum n), Inr u, Inr p) \<Rightarrow>
               Inr \<lparr>InsertScore.gameId = g, userId = u, playerName = p, score = n,
                    gameData = optional_json (map_of kvs ''gameData'')\<rparr>
           | _ \<Rightarrow> Inl (Failure ''ZodError''))
      | _ \<Rightarrow> Inl (Failure ''ZodError''))"

section \<open>Sample data\<close>

text \<open>
  A game whose \<open>update\<close> ends the game on every frame it runs, and one whose \<open>update\<close>
  sets the score to 7 on every frame it runs.
\<close>

definition sudden_death :: "unit GameClass" where
  "sudden_death =
     \<lparr>update = (\<lambda>deltaTime g st. (g, [Stop])), reset = (\<lambda>g st. (g, [UpdateScore 0]))\<rparr>"

definition head_start :: "unit GameClass" where
  "head_start =
     \<lparr>update = (\<lambda>deltaTime g st. (g, [UpdateScore 7])), reset = (\<lambda>g st. (g, [UpdateScore 0]))\<rparr>"

text \<open>
  Paper Plane as its component creates it (a canvas of 400 by 500), four frames into a
  game: the plane has flown 12.012 and the score is 1. On these frames, and on the frame
  of a restart, no comparison and no \<open>Math.floor\<close> is near enough to its threshold for
  the rounding of doubles to matter.
\<close>

definition canvas_400x500 :: GameConfig where
  "canvas_400x500 = \<lparr>GameConfig.width = 400, height = 500, fps = 60\<rparr>"

definition flight :: "(PaperPlane, Component) GameEngine" where
  "flight =
     run PaperPlaneGameEngine [Start 0, Frame 16, Frame 33, Frame 50]
       (mounted (PaperPlane_new canvas_400x500 (\<lambda>n. 1 / 2)))"

text \<open>The rows a score query selects: all of them for a missing or empty \<open>gameId\<close>.\<close>

definition matching :: "string option \<Rightarrow> MemStorage \<Rightarrow> Score list" where
  "matching g st =
     (case g of
        None \<Rightarrow> map snd (scores st)
      | Some i \<Rightarrow>
          if i \<noteq> [] then filter (\<lambda>s. InsertScore.gameId s = i) (map snd (scores st))
          else map snd (scores st))"

definition sample_uuid :: "nat \<Rightarrow> string" where
  "sample_uuid n = ''uuid-'' @ replicate n (CHR ''i'')"

definition blank_store :: MemStorage where
  "blank_store =
     \<lparr>games = [], scores = [], challenges = [], clock = 0, uuid = sample_uuid, drawn = 0\<rparr>"

definition score_body :: "string \<Rightarrow> int \<Rightarrow> json option" where
  "score_body g n = Some (JObj [(''gameId'', JStr g), (''score'', JNum n)])"

definition post :: "json option \<Rightarrow> MemStorage \<Rightarrow> MemStorage" where
  "post b st = snd (post_api_scores storage insertScoreSchema_parse b st)"

text \<open>The store after POST \<open>{gameId: "g1", score: 450}\<close> and POST \<open>{gameId: "g1", score: 900}\<close>.\<close>

definition two_posts :: MemStorage where
  "two_posts = post (score_body ''g1'' 900) (post (score_body ''g1'' 450) blank_store)"

text \<open>Two challenges for the same game whose windows overlap, read at time 60.\<close>

definition flip_master :: InsertChallenge where
  "flip_master =
     \<lparr>gameId = ''g1'', title = ''Bottle Flip Master'', description = ''Land 10 consecutive flips'',
      target = 10, reward = 500, startDate = 0, endDate = 100, isActive = Some 1\<rparr>"

definition speed_demon :: InsertChallenge where
  "speed_demon =
     \<lparr>gameId = ''g1'', title = ''Speed Demon'', description = ''Finish in under 30 seconds'',
      target = 30, reward = 750, startDate = 50, endDate = 150, isActive = Some 1\<rparr>"

definition two_challenges :: MemStorage where
  "two_challenges =
     (snd (MemStorage_createChallenge speed_demon
        (snd (MemStorage_createChallenge flip_master blank_store))))\<lparr>clock := 60\<rparr>"


definition impostor :: InsertGame where
  "impostor =
     \<lparr>name = ''Impostor'', slug = ''bottle-flip-2d'', description = ''Another game'',
      category = ''Timing'', size' = ''1MB'', thumbnail = None, isActive = Some 1\<rparr>"

text \<open>An implementation of the interface whose every operation rejects.\<close>

definition failing_store :: "unit IStorage" where
  "failing_store =
     \<lparr>getGames = (\<lambda>st. Inl (Failure ''store down'')),
      getGameBySlug = (\<lambda>s st. Inl (Failure ''store down'')),
      getScores = (\<lambda>g n st. Inl (Failure ''store down'')),
      createScore = (\<lambda>d st. (Inl (Failure ''store down''), st)),
      getTopScores = (\<lambda>g n st. Inl (Failure ''store down'')),
      getChallenges = (\<lambda>st. Inl (Failure ''store down'')),
      getActiveChallenge = (\<lambda>g st. Inl (Failure ''store down''))\<rparr>"

text \<open>Cache contents: a score of Tap Snake, a cache whose texts do not parse, and one
  whose texts are the JSON \<open>null\<close>. A conversion that makes every string, array and
  object NaN.\<close>

definition snake_score :: "int \<Rightarrow> GameScore" where
  "snake_score n =
     \<lparr>gameSlug = ''tap-snake'', score = n, playerName = None, timestamp = 0, gameData = None\<rparr>"

definition no_conversion :: "json \<Rightarrow> exn + int option" where
  "no_conversion v = Inr None"

text \<open>
  A cache with a score that was stored as the string \<open>"12"\<close>, and a conversion that
  reads this one string and throws on every other string, array and object.
\<close>

definition reads_twelve :: "json \<Rightarrow> exn + int option" where
  "reads_twelve v = (if v = JStr ''12'' then Inr (Some 12) else Inl TypeError)"

definition string_cache :: localStorage where
  "string_cache =
     [SCORES_KEY \<mapsto> Json_text (JArr
        [JObj [(''gameSlug'', JStr ''tap-snake''), (''score'', JNum 7)],
         JObj [(''gameSlug'', JStr ''color-trap''), (''score'', JArr [])],
         JObj [(''gameSlug'', JStr ''tap-snake''), (''score'', JStr ''12'')]])]"

definition unparsable_cache :: localStorage where
  "unparsable_cache = [SCORES_KEY \<mapsto> Malformed, PREFERENCES_KEY \<mapsto> Malformed]"

definition null_cache :: localStorage where
  "null_cache = [SCORES_KEY \<mapsto> Json_text JNull, PREFERENCES_KEY \<mapsto> Json_text JNull]"

chapter \<open>Properties\<close>

section \<open>The game loop\<close>

lemma stop_state:
  "state (stop e) = (state e)\<lparr>isPlaying := False, gameOver := True\<rparr>"
  by (simp add: stop_def cancelAnimationFrame_def Let_def split: option.splits)

lemma updateScore_state:
  "state (updateScore n e) = (state e)\<lparr>GameState.score := n\<rparr>"
  by (simp add: updateScore_def Let_def split: option.splits)

lemma run_calls_consistent:
  "\<not> (isPlaying (state e) \<and> gameOver (state e)) \<Longrightarrow>
   \<not> (isPlaying (state (run_calls cs e)) \<and> gameOver (state (run_calls cs e)))"
proof (induction cs arbitrary: e)
  case Nil
  then show ?case by simp
next
  case (Cons c cs)
  show ?case
  proof (cases c)
    case (UpdateScore n)
    have "\<not> (isPlaying (state (updateScore n e)) \<and> gameOver (state (updateScore n e)))"
      using Cons.prems by (simp add: updateScore_state)
    then show ?thesis using Cons.IH UpdateScore by simp
  next
    case Stop
    have "\<not> (isPlaying (state (stop e)) \<and> gameOver (state (stop e)))"
      by (simp add: stop_state)
    then show ?thesis using Cons.IH Stop by simp
  qed
qed

lemma run_update_consistent:
  "\<not> (isPlaying (state e) \<and> gameOver (state e)) \<Longrightarrow>
   \<not> (isPlaying (state (run_update G d e)) \<and> gameOver (state (run_update G d e)))"
  unfolding run_update_def
  by (cases "update G d (concrete e) (state e)") (simp add: run_calls_consistent)

lemma run_reset_consistent:
  "\<not> (isPlaying (state e) \<and> gameOver (state e)) \<Longrightarrow>
   \<not> (isPlaying (state (run_reset G e)) \<and> gameOver (state (run_reset G e)))"
  unfolding run_reset_def
  by (cases "reset G (concrete e) (state e)") (simp add: run_calls_consistent)

lemma gameLoop_state:
  "state (gameLoop G t e) =
     (if isPlaying (state e) \<and> \<not> isPaused (state e) \<and> \<not> gameOver (state e)
      then state (run_update G (t - lastTime e) (e\<lparr>lastTime := t\<rparr>)) else state e)"
  by (simp add: gameLoop_def requestAnimationFrame_def Let_def)

lemma gameLoop_consistent:
  "\<not> (isPlaying (state e) \<and> gameOver (state e)) \<Longrightarrow>
   \<not> (isPlaying (state (gameLoop G t e)) \<and> gameOver (state (gameLoop G t e)))"
proof -
  assume a: "\<not> (isPlaying (state e) \<and> gameOver (state e))"
  have b: "\<not> (isPlaying (state (e\<lparr>lastTime := t\<rparr>)) \<and> gameOver (state (e\<lparr>lastTime := t\<rparr>)))"
    using a by simp
  show ?thesis
    using a run_update_consistent [OF b, of G "t - lastTime e"]
    by (simp only: gameLoop_state split: if_splits) auto
qed

lemma start_consistent:
  "\<not> (isPlaying (state e) \<and> gameOver (state e)) \<Longrightarrow>
   \<not> (isPlaying (state (start G now e)) \<and> gameOver (state (start G now e)))"
proof -
  assume a: "\<not> (isPlaying (state e) \<and> gameOver (state e))"
  show ?thesis
  proof (cases "isPlaying (state e)")
    case True
    then show ?thesis using a by (simp add: start_def)
  next
    case False
    let ?e1 = "e\<lparr>state := (state e)\<lparr>isPlaying := True, gameOver := False, isPaused := False\<rparr>,
                 lastTime := now\<rparr>"
    have "\<not> (isPlaying (state ?e1) \<and> gameOver (state ?e1))" by simp
    from gameLoop_consistent [OF this, of G now]
    show ?thesis using False by (simp add: start_def Let_def)
  qed
qed

lemma restart_consistent:
  "\<not> (isPlaying (state (restart G now e)) \<and> gameOver (state (restart G now e)))"
proof -
  have "\<not> (isPlaying (state (stop e)) \<and> gameOver (state (stop e)))"
    by (simp add: stop_state)
  then have "\<not> (isPlaying (state (run_reset G (stop e))) \<and> gameOver (state (run_reset G (stop e))))"
    by (rule run_reset_consistent)
  then show ?thesis
    unfolding restart_def by (rule start_consistent)
qed

lemma step_consistent:
  "\<not> (isPlaying (state e) \<and> gameOver (state e)) \<Longrightarrow>
   \<not> (isPlaying (state (step G e x)) \<and> gameOver (state (step G e x)))"
proof (cases x)
  case (Start n)
  assume "\<not> (isPlaying (state e) \<and> gameOver (state e))"
  then show ?thesis using Start start_consistent [of e G n] by simp
next
  case Pause
  assume "\<not> (isPlaying (state e) \<and> gameOver (state e))"
  then show ?thesis using Pause by (simp add: pause_def)
next
  case StopGame
  then show ?thesis by (simp add: stop_state)
next
  case (Restart n)
  then show ?thesis using restart_consistent [of G n e] by simp
next
  case (Frame t)
  assume a: "\<not> (isPlaying (state e) \<and> gameOver (state e))"
  show ?thesis
  proof (cases "frames e")
    case Nil
    then show ?thesis using a Frame by simp
  next
    case (Cons h hs)
    have "\<not> (isPlaying (state (e\<lparr>frames := hs\<rparr>)) \<and> gameOver (state (e\<lparr>frames := hs\<rparr>)))"
      using a by simp
    from gameLoop_consistent [OF this, of G t]
    show ?thesis using Cons Frame by simp
  qed
next
  case (Input cs)
  assume "\<not> (isPlaying (state e) \<and> gameOver (state e))"
  then show ?thesis using Input run_calls_consistent [of e cs] by simp
qed

lemma run_consistent:
  "\<not> (isPlaying (state e) \<and> gameOver (state e)) \<Longrightarrow>
   \<not> (isPlaying (state (run G ops e)) \<and> gameOver (state (run G ops e)))"
  unfolding run_def
proof (induction ops arbitrary: e)
  case Nil
  then show ?case by simp
next
  case (Cons x xs)
  from step_consistent [OF Cons.prems, of G x]
  show ?case using Cons.IH by simp
qed

text \<open>
  C1. Whatever the game, its callbacks and the sequence of \<open>start\<close>, \<open>pause\<close>, \<open>stop\<close>
  and \<open>restart\<close> calls (and of frames and input events in between), the state reached
  from a freshly constructed engine never has \<open>isPlaying\<close> and \<open>gameOver\<close> both true.
\<close>

theorem playing_excludes_gameOver:
  "\<not> (isPlaying (state (run G ops (setCallbacks f h (GameEngine_new g w)))) \<and>
      gameOver (state (run G ops (setCallbacks f h (GameEngine_new g w)))))"
  by (rule run_consistent) (simp add: setCallbacks_def GameEngine_new_def)



lemma run_calls_not_playing:
  "\<not> isPlaying (state e) \<Longrightarrow> \<not> isPlaying (state (run_calls cs e))"
proof (induction cs arbitrary: e)
  case Nil
  then show ?case by simp
next
  case (Cons c cs)
  then show ?case
    by (cases c) (simp_all add: updateScore_state stop_state)
qed

lemma run_reset_not_playing:
  "\<not> isPlaying (state e) \<Longrightarrow> \<not> isPlaying (state (run_reset G e))"
  unfolding run_reset_def
  by (cases "reset G (concrete e) (state e)") (simp add: run_calls_not_playing)

lemma restart_unfold:
  "restart G now e =
     gameLoop G now
       ((run_reset G (stop e))\<lparr>state := (state (run_reset G (stop e)))
            \<lparr>isPlaying := True, gameOver := False, isPaused := False\<rparr>,
          lastTime := now\<rparr>)"
proof -
  have "\<not> isPlaying (state (run_reset G (stop e)))"
    by (rule run_reset_not_playing) (simp add: stop_state)
  then show ?thesis by (simp add: restart_def start_def Let_def)
qed

lemma run_calls_no_stop:
  "Stop \<notin> set cs \<Longrightarrow>
   state (run_calls cs e) = (state e)\<lparr>GameState.score := last_score cs (GameState.score (state e))\<rparr>"
proof (induction cs arbitrary: e)
  case Nil
  show ?case by simp
next
  case (Cons c cs)
  then show ?case by (cases c) (simp_all add: updateScore_state)
qed

lemma last_score_same:
  "\<forall>n. UpdateScore n \<in> set cs \<longrightarrow> n = s \<Longrightarrow> last_score cs s = s"
proof (induction cs)
  case Nil
  show ?case by simp
next
  case (Cons c cs)
  then show ?case by (cases c) simp_all
qed

lemma run_calls_concrete: "concrete (run_calls cs e) = concrete e"
proof (induction cs arbitrary: e)
  case Nil
  show ?case by simp
next
  case (Cons c cs)
  then show ?case
    by (cases c) (simp_all add: updateScore_def stop_def cancelAnimationFrame_def Let_def split: option.splits)
qed

lemma first_frame_concrete:
  "first_frame G e =
     snd (update G 0 (fst (reset G (concrete e) (state (stop e))))
            ((state (run_reset G (stop e)))\<lparr>isPlaying := True, gameOver := False, isPaused := False\<rparr>))"
proof -
  have "concrete (stop e) = concrete e"
    by (simp add: stop_def cancelAnimationFrame_def Let_def split: option.splits)
  then have "concrete (run_reset G (stop e)) = fst (reset G (concrete e) (state (stop e)))"
    by (cases "reset G (concrete e) (state (stop e))") (simp add: run_reset_def run_calls_concrete)
  then show ?thesis by (simp add: first_frame_def Let_def)
qed

lemma restart_state:
  assumes "Stop \<notin> set (first_frame G e)"
  shows "state (restart G now e) =
           (state (run_reset G (stop e)))
             \<lparr>isPlaying := True, gameOver := False, isPaused := False,
              GameState.score :=
                last_score (first_frame G e) (GameState.score (state (run_reset G (stop e))))\<rparr>"
proof -
  let ?e1 = "run_reset G (stop e)"
  let ?st = "(state ?e1)\<lparr>isPlaying := True, gameOver := False, isPaused := False\<rparr>"
  obtain g cs where u: "update G 0 (concrete ?e1) ?st = (g, cs)"
    by (cases "update G 0 (concrete ?e1) ?st")
  then have f: "first_frame G e = cs" by (simp add: first_frame_def Let_def)
  with assms have n: "Stop \<notin> set cs" by simp
  show ?thesis
    by (simp add: restart_unfold gameLoop_state run_update_def u f run_calls_no_stop [OF n])
qed

lemma reset_to_zero:
  "snd (reset G (concrete e) (state e)) = [UpdateScore 0] \<Longrightarrow>
   GameState.score (state (run_reset G e)) = 0"
  unfolding run_reset_def
  by (cases "reset G (concrete e) (state e)") (simp add: updateScore_state)

text \<open>
  Paper Plane on the frame of a restart, from every engine state on the component's
  canvas: the plane is back at mid-height, the new obstacles are at the right edge, the
  distance is 3, so \<open>update\<close> calls \<open>updateScore(0)\<close> and does not call \<open>stop\<close>.
\<close>

lemma PaperPlane_fresh_update:
  assumes "GameConfig.width (config g) = 400" and "GameConfig.height (config g) = 500"
  shows "snd (PaperPlane_update d
            (g\<lparr>plane := createPlane (config g), obstacles := [], distance := 0, gameSpeed := 3,
               lastObstacleX := 0\<rparr>) st) = [UpdateScore 0]"
  using assms
  by (simp add: PaperPlane_update_def createPlane_def generateObstacle_def checkCollisions_def
      gravity_def obstacleSpacing_def Let_def floor_eq_iff)

lemma PaperPlane_first_frame:
  assumes "GameConfig.width (config (concrete e)) = 400"
    and "GameConfig.height (config (concrete e)) = 500"
  shows "first_frame PaperPlaneGameEngine e = [UpdateScore 0]"
  using PaperPlane_fresh_update [OF assms]
  by (simp add: first_frame_concrete PaperPlaneGameEngine_def PaperPlane_reset_def)

lemma PaperPlane_restart:
  assumes "GameConfig.width (config (concrete e)) = 400"
    and "GameConfig.height (config (concrete e)) = 500"
  shows "isPlaying (state (restart PaperPlaneGameEngine now e)) \<and>
         \<not> gameOver (state (restart PaperPlaneGameEngine now e)) \<and>
         \<not> isPaused (state (restart PaperPlaneGameEngine now e)) \<and>
         GameState.score (state (restart PaperPlaneGameEngine now e)) = 0"
proof -
  have f: "first_frame PaperPlaneGameEngine e = [UpdateScore 0]"
    using assms by (rule PaperPlane_first_frame)
  then have "Stop \<notin> set (first_frame PaperPlaneGameEngine e)" by simp
  from restart_state [OF this, of now] show ?thesis by (simp add: f)
qed

text \<open>
  Color Trap on the frame of a restart, from every engine state: \<open>reset\<close> has set
  \<open>lastTimeUpdate\<close> to 0 and \<open>deltaTime\<close> is 0, so \<open>update\<close> makes no call.
\<close>

lemma ColorTrap_first_frame: "first_frame ColorTrapGameEngine e = []"
  by (simp add: first_frame_concrete ColorTrapGameEngine_def ColorTrap_reset_def ColorTrap_update_def)

lemma ColorTrap_restart:
  "isPlaying (state (restart ColorTrapGameEngine now e)) \<and>
   \<not> gameOver (state (restart ColorTrapGameEngine now e)) \<and>
   \<not> isPaused (state (restart ColorTrapGameEngine now e)) \<and>
   GameState.score (state (restart ColorTrapGameEngine now e)) = 0"
proof -
  have f: "first_frame ColorTrapGameEngine e = []" by (rule ColorTrap_first_frame)
  then have "Stop \<notin> set (first_frame ColorTrapGameEngine e)" by simp
  from restart_state [OF this, of now] have
    "state (restart ColorTrapGameEngine now e) =
       (state (run_reset ColorTrapGameEngine (stop e)))
         \<lparr>isPlaying := True, gameOver := False, isPaused := False,
          GameState.score := GameState.score (state (run_reset ColorTrapGameEngine (stop e)))\<rparr>"
    by (simp add: f)
  moreover have "GameState.score (state (run_reset ColorTrapGameEngine (stop e))) = 0"
    by (rule reset_to_zero) (simp add: ColorTrapGameEngine_def ColorTrap_reset_def)
  ultimately show ?thesis by simp
qed

text \<open>
  C7, as amended. \<open>start\<close> runs the first frame at once, with \<open>deltaTime\<close> 0. When the
  game's \<open>update\<close> does not call \<open>stop\<close> on that frame, \<open>restart\<close> leaves the engine
  playing, not paused and not over, from every engine state. The score is then the last
  value that \<open>update\<close> passed to \<open>updateScore\<close>, or the score \<open>reset\<close> left when it passed
  none; so it is the score \<open>reset\<close> left whenever that \<open>update\<close> passes no other value,
  and that score is 0 when \<open>reset\<close> calls \<open>updateScore(0)\<close> and nothing else.
\<close>

theorem restart_playing:
  assumes "Stop \<notin> set (first_frame G e)"
  shows "isPlaying (state (restart G now e)) \<and> \<not> gameOver (state (restart G now e)) \<and>
         \<not> isPaused (state (restart G now e)) \<and>
         GameState.score (state (restart G now e)) =
           last_score (first_frame G e) (GameState.score (state (run_reset G (stop e)))) \<and>
         ((\<forall>n. UpdateScore n \<in> set (first_frame G e) \<longrightarrow>
                n = GameState.score (state (run_reset G (stop e)))) \<longrightarrow>
            GameState.score (state (restart G now e)) = GameState.score (state (run_reset G (stop e)))) \<and>
         (snd (reset G (concrete (stop e)) (state (stop e))) = [UpdateScore 0] \<longrightarrow>
            GameState.score (state (run_reset G (stop e))) = 0)"
proof -
  let ?s = "GameState.score (state (run_reset G (stop e)))"
  note s = restart_state [OF assms, of now]
  have "(\<forall>n. UpdateScore n \<in> set (first_frame G e) \<longrightarrow> n = ?s) \<longrightarrow>
        last_score (first_frame G e) ?s = ?s"
    using last_score_same [of "first_frame G e" ?s] by blast
  then show ?thesis using s reset_to_zero [of G "stop e"] by simp
qed

text \<open>
  Paper Plane restarted in mid-flight, with score 1: its \<open>update\<close> calls \<open>updateScore\<close>
  on the frame of the restart, with the 0 that \<open>reset\<close> left.
\<close>

theorem restart_playing_witness:
  "GameState.score (state flight) = 1 \<and>
   first_frame PaperPlaneGameEngine flight = [UpdateScore 0] \<and>
   GameState.score (state (run_reset PaperPlaneGameEngine (stop flight))) = 0 \<and>
   isPlaying (state (restart PaperPlaneGameEngine 64 flight)) \<and>
   \<not> gameOver (state (restart PaperPlaneGameEngine 64 flight)) \<and>
   \<not> isPaused (state (restart PaperPlaneGameEngine 64 flight)) \<and>
   GameState.score (state (restart PaperPlaneGameEngine 64 flight)) = 0"
proof -
  have f: "first_frame PaperPlaneGameEngine flight = [UpdateScore 0]"
    by code_simp
  then have n: "Stop \<notin> set (first_frame PaperPlaneGameEngine flight)" by simp
  have s: "GameState.score (state flight) = 1"
    by code_simp
  have r: "snd (reset PaperPlaneGameEngine (concrete (stop flight)) (state (stop flight))) =
             [UpdateScore 0]"
    by (simp add: PaperPlaneGameEngine_def PaperPlane_reset_def)
  show ?thesis using restart_playing [OF n, of 64] f s r by simp
qed

text \<open>
  C7 as stated fails for a game whose \<open>update\<close> calls \<open>stop\<close> on the first frame:
  \<open>restart\<close> returns with the engine stopped and the game over. And for a game whose
  \<open>update\<close> sets another score on that frame, the score after \<open>restart\<close> is not the one
  \<open>reset\<close> left.
\<close>

theorem restart_may_end_stopped:
  "\<not> isPlaying (state (restart sudden_death 0 (GameEngine_new () ()))) \<and>
   gameOver (state (restart sudden_death 0 (GameEngine_new () ()))) \<and>
   GameState.score (state (run_reset head_start (stop (GameEngine_new () ())))) = 0 \<and>
   GameState.score (state (restart head_start 0 (GameEngine_new () ()))) = 7"
  by (simp add: restart_def start_def stop_def run_reset_def gameLoop_def run_update_def
      requestAnimationFrame_def cancelAnimationFrame_def updateScore_def GameEngine_new_def
      sudden_death_def head_start_def Let_def)

section \<open>Sorting by score\<close>

text \<open>
  On rows whose comparator is a difference of integer keys, \<open>array_sort\<close> is the library's
  stable \<open>sort_key\<close>.
\<close>

lemma sort_insert_insort:
  assumes "\<And>y. y \<in> set ys \<Longrightarrow> cmp x y = Inr (Some (f x - f y))"
  shows "sort_insert cmp x ys = Inr (insort_key f x ys)"
  using assms
proof (induction ys)
  case Nil
  then show ?case by simp
next
  case (Cons y ys)
  have c: "cmp x y = Inr (Some (f x - f y))" using Cons.prems by simp
  have r: "sort_insert cmp x ys = Inr (insort_key f x ys)"
    using Cons.IH Cons.prems by simp
  show ?case by (simp add: c r)
qed

lemma array_sort_sort_key:
  fixes f :: "'a \<Rightarrow> int"
  assumes "\<And>a b. a \<in> set xs \<Longrightarrow> b \<in> set xs \<Longrightarrow> cmp a b = Inr (Some (f a - f b))"
  shows "array_sort cmp xs = Inr (sort_key f xs)"
  using assms
proof (induction xs)
  case Nil
  then show ?case by simp
next
  case (Cons x xs)
  have r: "array_sort cmp xs = Inr (sort_key f xs)"
    using Cons.IH Cons.prems by simp
  have i: "sort_insert cmp x (sort_key f xs) = Inr (insort_key f x (sort_key f xs))"
    by (rule sort_insert_insort) (simp add: Cons.prems)
  show ?case by (simp add: r i)
qed

lemma sorted_uminus_rev:
  fixes l :: "int list"
  shows "sorted (map uminus l) \<Longrightarrow> sorted (rev l)"
  by (simp add: sorted_wrt_rev sorted_wrt_map)

lemma scores_of_ranked:
  fixes f :: "'a \<Rightarrow> int"
  shows "map f (sort_key (\<lambda>x. - f x) xs) = rev (sort (map f xs))"
proof -
  let ?ys = "sort_key (\<lambda>x. - f x) xs"
  have "sorted (map (\<lambda>x. - f x) ?ys)" by (rule sorted_sort_key)
  then have "sorted (map uminus (map f ?ys))" by (simp add: comp_def)
  then have s: "sorted (rev (map f ?ys))" by (rule sorted_uminus_rev)
  have m: "mset (rev (map f ?ys)) = mset (map f xs)" by simp
  have "sort (map f xs) = rev (map f ?ys)"
    using m s by (rule properties_for_sort)
  then show ?thesis by simp
qed

lemma mset_take_subset: "mset (take n xs) \<subseteq># mset xs"
proof -
  have "mset xs = mset (take n xs) + mset (drop n xs)"
    by (metis append_take_drop_id mset_append)
  then show ?thesis by simp
qed

lemma ranked_take:
  fixes f :: "'a \<Rightarrow> int"
  shows "length (take n (sort_key (\<lambda>x. - f x) m)) = min n (length m) \<and>
         map f (take n (sort_key (\<lambda>x. - f x) m)) = take n (rev (sort (map f m))) \<and>
         mset (take n (sort_key (\<lambda>x. - f x) m)) \<subseteq># mset m"
proof -
  have a: "map f (take n (sort_key (\<lambda>x. - f x) m)) = take n (rev (sort (map f m)))"
    by (simp only: take_map [symmetric] scores_of_ranked)
  have "mset (take n (sort_key (\<lambda>x. - f x) m)) \<subseteq># mset (sort_key (\<lambda>x. - f x) m)"
    by (rule mset_take_subset)
  then have b: "mset (take n (sort_key (\<lambda>x. - f x) m)) \<subseteq># mset m" by simp
  show ?thesis using a b by (simp add: min.commute)
qed

lemma slice0_nat: "slice0 (int k) xs = take k xs"
  by (simp add: slice0_def)

lemma MemStorage_getScores_eq:
  "MemStorage_getScores g limit st =
     Inr (slice0 (case limit of None \<Rightarrow> 100 | Some n \<Rightarrow> n)
            (sort_key (\<lambda>s. - InsertScore.score s)
               (case g of
                  None \<Rightarrow> map snd (scores st)
                | Some i \<Rightarrow>
                    if i \<noteq> [] then filter (\<lambda>s. InsertScore.gameId s = i) (map snd (scores st))
                    else map snd (scores st))))"
proof -
  have "\<And>xs :: Score list. array_sort (\<lambda>a b. Inr (Some (InsertScore.score b - InsertScore.score a))) xs =
        Inr (sort_key (\<lambda>s. - InsertScore.score s) xs)"
    by (rule array_sort_sort_key) simp
  then show ?thesis by (simp add: MemStorage_getScores_def Let_def)
qed

section \<open>The score routes\<close>

lemma getScores_ranked:
  "MemStorage_getScores g (Some n) st =
     Inr (slice0 n (sort_key (\<lambda>s. - InsertScore.score s) (matching g st)))"
  by (simp add: MemStorage_getScores_eq matching_def)

lemma leaderboard_rows:
  "get_api_leaderboard storage g q st =
     json_response (ScoreList (slice0 (query_limit q)
        (sort_key (\<lambda>s. - InsertScore.score s) (matching (Some g) st))))"
  by (simp add: get_api_leaderboard_def storage_def MemStorage_getTopScores_def getScores_ranked Let_def)

lemma scores_rows:
  "get_api_scores storage g q st =
     json_response (ScoreList (slice0 (query_limit q)
        (sort_key (\<lambda>s. - InsertScore.score s) (matching g st))))"
  by (simp add: get_api_scores_def storage_def getScores_ranked Let_def)

lemma parseInt_1: "parseInt ''1'' = Some 1"
  by (simp add: parseInt_def is_space_def in_radix_def digit_of_def digits_value_def Let_def)

lemma parseInt_0: "parseInt ''0'' = Some 0"
  by (simp add: parseInt_def is_space_def in_radix_def digit_of_def digits_value_def Let_def)

lemma parseInt_minus_1: "parseInt ''-1'' = Some (- 1)"
  by (simp add: parseInt_def is_space_def in_radix_def digit_of_def digits_value_def Let_def)

lemma parseInt_abc: "parseInt ''abc'' = None"
  by (simp add: parseInt_def is_space_def in_radix_def digit_of_def digits_value_def Let_def)

lemma parseInt_undefined: "parseInt ''undefined'' = None"
  by (simp add: parseInt_def is_space_def in_radix_def digit_of_def digits_value_def Let_def)

lemma two_posts_scores:
  "scores two_posts =
     [(''uuid-'', \<lparr>InsertScore.gameId = ''g1'', userId = None, playerName = None, score = 450,
                    gameData = None, Score.id' = ''uuid-'', createdAt = Some 0\<rparr>),
      (''uuid-i'', \<lparr>InsertScore.gameId = ''g1'', userId = None, playerName = None, score = 900,
                    gameData = None, Score.id' = ''uuid-i'', createdAt = Some 0\<rparr>)]"
  by (simp add: two_posts_def post_def post_api_scores_def storage_def insertScoreSchema_parse_def
      score_body_def optional_string_def MemStorage_createScore_def randomUUID_def blank_store_def
      sample_uuid_def Let_def InsertScore.defs Score.defs)

lemma one_post_scores:
  "scores (post (score_body ''g1'' 450) blank_store) =
     [(''uuid-'', \<lparr>InsertScore.gameId = ''g1'', userId = None, playerName = None, score = 450,
                    gameData = None, Score.id' = ''uuid-'', createdAt = Some 0\<rparr>)]"
  by (simp add: post_def post_api_scores_def storage_def insertScoreSchema_parse_def
      score_body_def optional_string_def MemStorage_createScore_def randomUUID_def blank_store_def
      sample_uuid_def Let_def InsertScore.defs Score.defs)

text \<open>
  C2, as amended. For a game identifier \<open>g\<close> (a route parameter, so not empty), a store
  that holds \<open>N\<close> score rows of \<open>g\<close>, and a \<open>limit\<close> that \<open>parseInt\<close> reads as \<open>k\<close> with
  \<open>1 \<le> k \<le> N\<close>: the leaderboard answers 200 with exactly \<open>k\<close> rows, all of them rows of
  \<open>g\<close> in the store, whose scores are the \<open>k\<close> highest of \<open>g\<close> in descending order.
\<close>

theorem leaderboard_top_k:
  assumes "g \<noteq> []" and "parseInt q = Some (int k)" and "1 \<le> k"
    and "k \<le> length (matching (Some g) st)"
  shows "\<exists>rows. get_api_leaderboard storage g (Some q) st = \<lparr>status = 200, body = ScoreList rows\<rparr> \<and>
           length rows = k \<and>
           map InsertScore.score rows =
             take k (rev (sort (map InsertScore.score (matching (Some g) st)))) \<and>
           mset rows \<subseteq># mset (matching (Some g) st) \<and>
           matching (Some g) st = filter (\<lambda>s. InsertScore.gameId s = g) (map snd (scores st))"
proof -
  let ?m = "matching (Some g) st"
  let ?rows = "take k (sort_key (\<lambda>s. - InsertScore.score s) ?m)"
  have l: "query_limit (Some q) = int k"
    using assms(2,3) by (simp add: query_limit_def)
  have r: "get_api_leaderboard storage g (Some q) st = \<lparr>status = 200, body = ScoreList ?rows\<rparr>"
    by (simp add: leaderboard_rows l slice0_nat json_response_def)
  have n: "length ?rows = k" using assms(4) by simp
  have s: "map InsertScore.score ?rows = take k (rev (sort (map InsertScore.score ?m)))"
    by (simp only: take_map [symmetric] scores_of_ranked)
  have "mset ?rows \<subseteq># mset (sort_key (\<lambda>s. - InsertScore.score s) ?m)"
    by (rule mset_take_subset)
  then have m: "mset ?rows \<subseteq># mset ?m" by simp
  have f: "?m = filter (\<lambda>s. InsertScore.gameId s = g) (map snd (scores st))"
    using assms(1) by (simp add: matching_def)
  show ?thesis using r n s m f by blast
qed

text \<open>The scenario of the specification: POST 450, POST 900, then \<open>limit=1\<close> gives 900.\<close>

theorem leaderboard_top_k_witness:
  "\<exists>rows. get_api_leaderboard storage ''g1'' (Some ''1'') two_posts = \<lparr>status = 200, body = ScoreList rows\<rparr> \<and>
          length rows = 1 \<and> map InsertScore.score rows = [900]"
proof -
  have a: "''g1'' \<noteq> []" by simp
  have b: "parseInt ''1'' = Some (int 1)" by (simp add: parseInt_1)
  have c: "(1::nat) \<le> 1" by simp
  have m: "map InsertScore.score (matching (Some ''g1'') two_posts) = [450, 900]"
    by (simp add: matching_def two_posts_scores)
  have d: "1 \<le> length (matching (Some ''g1'') two_posts)"
    by (simp add: matching_def two_posts_scores)
  from leaderboard_top_k [OF a b c d]
  obtain rows where
    "get_api_leaderboard storage ''g1'' (Some ''1'') two_posts = \<lparr>status = 200, body = ScoreList rows\<rparr>"
    "length rows = 1"
    "map InsertScore.score rows = take 1 (rev (sort (map InsertScore.score (matching (Some ''g1'') two_posts))))"
    by blast
  then show ?thesis by (simp add: m)
qed

text \<open>
  C2 as stated fails at \<open>k = 0\<close>: with two rows stored, \<open>limit=0\<close> does not give the 0
  highest rows but both of them.
\<close>

theorem leaderboard_limit_zero:
  "get_api_leaderboard storage ''g1'' (Some ''0'') two_posts =
     \<lparr>status = 200, body = ScoreList
       [\<lparr>InsertScore.gameId = ''g1'', userId = None, playerName = None, score = 900,
          gameData = None, Score.id' = ''uuid-i'', createdAt = Some 0\<rparr>,
        \<lparr>InsertScore.gameId = ''g1'', userId = None, playerName = None, score = 450,
          gameData = None, Score.id' = ''uuid-'', createdAt = Some 0\<rparr>]\<rparr>"
  by (simp add: leaderboard_rows query_limit_def parseInt_0 matching_def two_posts_scores
      slice0_def json_response_def)

text \<open>
  C10, as amended. When \<open>limit\<close> is absent, or \<open>parseInt\<close> reads it as NaN or as 0, the
  limit used is 10, and both routes answer 200 with min(10, number of selected rows) of the
  selected rows, whose scores are the highest ones in descending order.
\<close>

theorem default_limit:
  assumes "q = None \<or> (\<exists>s. q = Some s \<and> (parseInt s = None \<or> parseInt s = Some 0))"
  shows "query_limit q = 10 \<and>
         (\<exists>rows. get_api_scores storage g q st = \<lparr>status = 200, body = ScoreList rows\<rparr> \<and>
            length rows = min 10 (length (matching g st)) \<and>
            map InsertScore.score rows = take 10 (rev (sort (map InsertScore.score (matching g st)))) \<and>
            mset rows \<subseteq># mset (matching g st)) \<and>
         (\<exists>rows. get_api_leaderboard storage i q st = \<lparr>status = 200, body = ScoreList rows\<rparr> \<and>
            length rows = min 10 (length (matching (Some i) st)) \<and>
            map InsertScore.score rows =
              take 10 (rev (sort (map InsertScore.score (matching (Some i) st)))) \<and>
            mset rows \<subseteq># mset (matching (Some i) st))"
proof -
  have l: "query_limit q = 10"
    using assms by (auto simp add: query_limit_def parseInt_undefined)
  have s: "get_api_scores storage g q st =
             \<lparr>status = 200, body = ScoreList (take 10 (sort_key (\<lambda>s. - InsertScore.score s) (matching g st)))\<rparr>"
    by (simp add: l scores_rows slice0_def json_response_def)
  have b: "get_api_leaderboard storage i q st =
             \<lparr>status = 200, body = ScoreList (take 10 (sort_key (\<lambda>s. - InsertScore.score s) (matching (Some i) st)))\<rparr>"
    by (simp add: l leaderboard_rows slice0_def json_response_def)
  show ?thesis
    using l s b ranked_take [of 10 InsertScore.score "matching g st"]
      ranked_take [of 10 InsertScore.score "matching (Some i) st"]
    by blast
qed

theorem default_limit_witness:
  "query_limit (Some ''0'') = 10 \<and> query_limit (Some ''abc'') = 10 \<and> query_limit None = 10 \<and>
   (\<exists>rows. get_api_leaderboard storage ''g1'' (Some ''0'') two_posts = \<lparr>status = 200, body = ScoreList rows\<rparr> \<and>
      length rows = 2 \<and> map InsertScore.score rows = [900, 450])"
proof -
  have a: "Some ''0'' = None \<or> (\<exists>s. Some ''0'' = Some s \<and> (parseInt s = None \<or> parseInt s = Some 0))"
    by (simp add: parseInt_0)
  have b: "Some ''abc'' = None \<or> (\<exists>s. Some ''abc'' = Some s \<and> (parseInt s = None \<or> parseInt s = Some 0))"
    by (simp add: parseInt_abc)
  have c: "None = None \<or> (\<exists>s. None = Some s \<and> (parseInt s = None \<or> parseInt s = Some 0))"
    by simp
  have m: "map InsertScore.score (matching (Some ''g1'') two_posts) = [450, 900]"
    by (simp add: matching_def two_posts_scores)
  have n: "length (matching (Some ''g1'') two_posts) = 2"
    by (simp add: matching_def two_posts_scores)
  from default_limit [OF a, of None two_posts "''g1''"] obtain rows where
    "get_api_leaderboard storage ''g1'' (Some ''0'') two_posts = \<lparr>status = 200, body = ScoreList rows\<rparr>"
    "length rows = min 10 (length (matching (Some ''g1'') two_posts))"
    "map InsertScore.score rows =
       take 10 (rev (sort (map InsertScore.score (matching (Some ''g1'') two_posts))))"
    by blast
  then have "\<exists>rows. get_api_leaderboard storage ''g1'' (Some ''0'') two_posts = \<lparr>status = 200, body = ScoreList rows\<rparr> \<and>
      length rows = 2 \<and> map InsertScore.score rows = [900, 450]"
    by (simp add: m n)
  then show ?thesis
    using default_limit [OF a, of None two_posts "''g1''"] default_limit [OF b, of None two_posts "''g1''"]
      default_limit [OF c, of None two_posts "''g1''"]
    by simp
qed

text \<open>
  C10 as stated fails for a negative limit: \<open>limit=-1\<close> is not replaced by 10, and
  \<open>slice(0, -1)\<close> drops the last row, so one stored row yields no result.
\<close>

theorem negative_limit_drops_rows:
  "get_api_leaderboard storage ''g1'' (Some ''-1'') (post (score_body ''g1'' 450) blank_store) =
     \<lparr>status = 200, body = ScoreList []\<rparr> \<and>
   length (matching (Some ''g1'') (post (score_body ''g1'' 450) blank_store)) = 1"
  by (simp add: leaderboard_rows query_limit_def parseInt_minus_1 matching_def one_post_scores
      slice0_def json_response_def)

section \<open>The active challenge\<close>

lemma active_challenge_response:
  "get_api_challenges_gameId storage g st =
     json_response (OneChallenge (find (active_for g (clock st)) (map snd (challenges st))))"
  by (simp add: get_api_challenges_gameId_def storage_def MemStorage_getActiveChallenge_def Let_def)

lemma find_first:
  "find P xs = Some x \<longleftrightarrow> (\<exists>n < length xs. xs ! n = x \<and> P x \<and> (\<forall>m < n. \<not> P (xs ! m)))"
proof -
  have "find P xs = Some x \<longleftrightarrow> (\<exists>i<length xs. P (xs ! i) \<and> x = xs ! i \<and> (\<forall>j<i. \<not> P (xs ! j)))"
    by (rule find_Some_iff)
  also have "\<dots> \<longleftrightarrow> (\<exists>n < length xs. xs ! n = x \<and> P x \<and> (\<forall>m < n. \<not> P (xs ! m)))"
    by metis
  finally show ?thesis .
qed

lemma two_challenges_simps:
  "challenges two_challenges =
     [(''uuid-'', InsertChallenge.extend flip_master (Challenge.fields ''uuid-'')),
      (''uuid-i'', InsertChallenge.extend speed_demon (Challenge.fields ''uuid-i''))]"
  "clock two_challenges = 60"
  by (simp_all add: two_challenges_def MemStorage_createChallenge_def randomUUID_def blank_store_def
      sample_uuid_def Let_def)

lemma sample_challenges_active:
  "active_for ''g1'' 60 (InsertChallenge.extend flip_master (Challenge.fields ''uuid-''))"
  "active_for ''g1'' 60 (InsertChallenge.extend speed_demon (Challenge.fields ''uuid-i''))"
  by (simp_all add: active_for_def flip_master_def speed_demon_def InsertChallenge.defs Challenge.defs)

text \<open>
  C6, as amended. The route answers 200 with the first stored challenge (in creation
  order) that belongs to the game, has the active flag 1 and whose window contains the
  clock's time, both ends included; the body is empty exactly when no stored challenge
  is such. A challenge is returned if and only if it is such and no earlier stored one is.
\<close>

theorem active_challenge_is_first_match:
  "\<exists>r. get_api_challenges_gameId storage g st = \<lparr>status = 200, body = OneChallenge r\<rparr> \<and>
        (r = None \<longleftrightarrow> (\<forall>c \<in> set (map snd (challenges st)). \<not> active_for g (clock st) c)) \<and>
        (\<forall>c. r = Some c \<longleftrightarrow>
           (\<exists>n < length (map snd (challenges st)).
              map snd (challenges st) ! n = c \<and> active_for g (clock st) c \<and>
              (\<forall>m < n. \<not> active_for g (clock st) (map snd (challenges st) ! m)))) \<and>
        (\<forall>c. active_for g (clock st) c \<longleftrightarrow>
           InsertChallenge.gameId c = g \<and> InsertChallenge.isActive c = Some 1 \<and>
           startDate c \<le> clock st \<and> clock st \<le> endDate c)"
proof -
  let ?cs = "map snd (challenges st)"
  let ?r = "find (active_for g (clock st)) ?cs"
  have a: "get_api_challenges_gameId storage g st = \<lparr>status = 200, body = OneChallenge ?r\<rparr>"
    by (simp add: active_challenge_response json_response_def)
  have b: "?r = None \<longleftrightarrow> (\<forall>c \<in> set ?cs. \<not> active_for g (clock st) c)"
    by (simp only: find_None_iff) blast
  have c: "\<forall>c. ?r = Some c \<longleftrightarrow>
           (\<exists>n < length ?cs. ?cs ! n = c \<and> active_for g (clock st) c \<and>
              (\<forall>m < n. \<not> active_for g (clock st) (?cs ! m)))"
    by (simp only: find_first) simp
  have d: "\<forall>c. active_for g (clock st) c \<longleftrightarrow>
           InsertChallenge.gameId c = g \<and> InsertChallenge.isActive c = Some 1 \<and>
           startDate c \<le> clock st \<and> clock st \<le> endDate c"
    by (simp add: active_for_def)
  from a b c d show ?thesis by (intro exI [of _ ?r] conjI)
qed

theorem active_challenge_is_first_match_witness:
  "\<exists>r. get_api_challenges_gameId storage ''g1'' two_challenges = \<lparr>status = 200, body = OneChallenge r\<rparr> \<and>
        r \<noteq> None"
proof -
  from active_challenge_is_first_match [of "''g1''" two_challenges]
  obtain r where
    a: "get_api_challenges_gameId storage ''g1'' two_challenges = \<lparr>status = 200, body = OneChallenge r\<rparr>"
    and b: "r = None \<longleftrightarrow>
              (\<forall>c \<in> set (map snd (challenges two_challenges)). \<not> active_for ''g1'' (clock two_challenges) c)"
    by blast
  have "\<not> (\<forall>c \<in> set (map snd (challenges two_challenges)). \<not> active_for ''g1'' (clock two_challenges) c)"
    by (simp add: two_challenges_simps sample_challenges_active)
  then have "r \<noteq> None" using b by simp
  then show ?thesis using a by blast
qed

text \<open>
  C6 as stated fails when two challenges of a game are active at once: the second one has
  its flag set and the time in its window, and is not what the route returns.
\<close>

theorem second_active_challenge_not_returned:
  "active_for ''g1'' (clock two_challenges) (InsertChallenge.extend speed_demon (Challenge.fields ''uuid-i'')) \<and>
   InsertChallenge.extend speed_demon (Challenge.fields ''uuid-i'') \<in> set (map snd (challenges two_challenges)) \<and>
   get_api_challenges_gameId storage ''g1'' two_challenges =
     \<lparr>status = 200, body = OneChallenge (Some (InsertChallenge.extend flip_master (Challenge.fields ''uuid-'')))\<rparr> \<and>
   InsertChallenge.extend flip_master (Challenge.fields ''uuid-'')
     \<noteq> InsertChallenge.extend speed_demon (Challenge.fields ''uuid-i'')"
  by (simp add: active_challenge_response json_response_def two_challenges_simps sample_challenges_active)
    (simp add: flip_master_def speed_demon_def InsertChallenge.defs Challenge.defs)

section \<open>Games by slug\<close>

lemma game_response:
  "get_api_games_slug storage s st =
     (case find (\<lambda>game. slug game = s) (map snd (games st)) of
        None \<Rightarrow> \<lparr>status = 404, body = Message ''Game not found''\<rparr>
      | Some game \<Rightarrow> \<lparr>status = 200, body = OneGame game\<rparr>)"
  by (simp add: get_api_games_slug_def storage_def MemStorage_getGameBySlug_def
      error_response_def json_response_def split: option.splits)

lemma createGame_simps:
  "fst (MemStorage_createGame ins st) =
     InsertGame.extend ins (Game.fields (uuid st (drawn st)) (Some (clock st)))"
  "games (snd (MemStorage_createGame ins st)) =
     AList.update (uuid st (drawn st))
       (InsertGame.extend ins (Game.fields (uuid st (drawn st)) (Some (clock st)))) (games st)"
  by (simp_all add: MemStorage_createGame_def randomUUID_def Let_def)

lemma slug_extend: "slug (InsertGame.extend ins x) = slug ins"
  by (simp add: InsertGame.defs)

lemma initializeGames_simps:
  "games (initializeGames \<lparr>games = [], scores = [], challenges = [], clock = now, uuid = sample_uuid, drawn = 0\<rparr>) =
     map (\<lambda>(k, ins). (k, InsertGame.extend ins (Game.fields k (Some now))))
       (zip [''uuid-'', ''uuid-i'', ''uuid-ii'', ''uuid-iii'', ''uuid-iiii'', ''uuid-iiiii''] defaultGames)"
  "drawn (initializeGames \<lparr>games = [], scores = [], challenges = [], clock = now, uuid = ids, drawn = 0\<rparr>) = 6"
  "uuid (initializeGames \<lparr>games = [], scores = [], challenges = [], clock = now, uuid = ids, drawn = 0\<rparr>) = ids"
  "clock (initializeGames \<lparr>games = [], scores = [], challenges = [], clock = now, uuid = ids, drawn = 0\<rparr>) = now"
  by (simp_all add: initializeGames_def defaultGames_def MemStorage_createGame_def randomUUID_def
      Let_def sample_uuid_def)

lemma initializeChallenges_simps:
  "games (initializeChallenges st) = games st"
  "drawn (initializeChallenges st) = drawn st + 3"
  "uuid (initializeChallenges st) = uuid st"
  "clock (initializeChallenges st) = clock st"
  by (simp_all add: initializeChallenges_def defaultChallenges_def MemStorage_createChallenge_def
      randomUUID_def Let_def)

lemma MemStorage_new_simps:
  "games (MemStorage_new now sample_uuid) =
     map (\<lambda>(k, ins). (k, InsertGame.extend ins (Game.fields k (Some now))))
       (zip [''uuid-'', ''uuid-i'', ''uuid-ii'', ''uuid-iii'', ''uuid-iiii'', ''uuid-iiiii''] defaultGames)"
  "drawn (MemStorage_new now ids) = 9"
  "uuid (MemStorage_new now ids) = ids"
  "clock (MemStorage_new now ids) = now"
  by (simp_all add: MemStorage_new_def initializeChallenges_simps initializeGames_simps)







text \<open>
  The uniqueness is kept by the callers, not by \<open>createGame\<close>, which does not look at
  the slug. Were a game created with a taken slug (nothing in the repository does this),
  the route would go on returning the older game.
\<close>

lemma created_game_shadowed_by_older:
  "get_api_games_slug storage ''bottle-flip-2d''
     (snd (MemStorage_createGame impostor (MemStorage_new 0 sample_uuid))) =
     \<lparr>status = 200, body = OneGame (InsertGame.extend (hd defaultGames) (Game.fields ''uuid-'' (Some 0)))\<rparr> \<and>
   name (InsertGame.extend (hd defaultGames) (Game.fields ''uuid-'' (Some 0))) = ''Bottle Flip 2D'' \<and>
   name (fst (MemStorage_createGame impostor (MemStorage_new 0 sample_uuid))) = ''Impostor''"
proof -
  let ?st = "MemStorage_new 0 sample_uuid"
  let ?old = "InsertGame.extend (hd defaultGames) (Game.fields ''uuid-'' (Some 0))"
  have "find (\<lambda>game. slug game = ''bottle-flip-2d'')
          (map snd (games (snd (MemStorage_createGame impostor ?st)))) = Some ?old"
    by (simp add: createGame_simps MemStorage_new_simps defaultGames_def slug_extend sample_uuid_def)
  then have r: "get_api_games_slug storage ''bottle-flip-2d'' (snd (MemStorage_createGame impostor ?st)) =
        \<lparr>status = 200, body = OneGame ?old\<rparr>"
    by (simp add: game_response)
  have o: "name ?old = ''Bottle Flip 2D''"
    by (simp add: defaultGames_def InsertGame.defs)
  have n: "name (fst (MemStorage_createGame impostor ?st)) = ''Impostor''"
    by (simp add: createGame_simps impostor_def InsertGame.defs)
  show ?thesis using r o n by simp
qed

section \<open>Errors of the routes\<close>

text \<open>
  Every GET handler answers a rejected store operation with 500 and a fixed message. The
  POST handler answers 400 to a body the schema rejects, 201 with the created row when the
  store accepts, and 400 (not 500) when the store rejects.
\<close>

lemma store_failure_500:
  "getGames db st = Inl e \<Longrightarrow> get_api_games db st = \<lparr>status = 500, body = Message ''Failed to fetch games''\<rparr>"
  "getGameBySlug db s st = Inl e \<Longrightarrow>
     get_api_games_slug db s st = \<lparr>status = 500, body = Message ''Failed to fetch game''\<rparr>"
  "getScores db g (Some (query_limit q)) st = Inl e \<Longrightarrow>
     get_api_scores db g q st = \<lparr>status = 500, body = Message ''Failed to fetch scores''\<rparr>"
  "getTopScores db i (query_limit q) st = Inl e \<Longrightarrow>
     get_api_leaderboard db i q st = \<lparr>status = 500, body = Message ''Failed to fetch leaderboard''\<rparr>"
  "getChallenges db st = Inl e \<Longrightarrow>
     get_api_challenges db st = \<lparr>status = 500, body = Message ''Failed to fetch challenges''\<rparr>"
  "getActiveChallenge db i st = Inl e \<Longrightarrow>
     get_api_challenges_gameId db i st = \<lparr>status = 500, body = Message ''Failed to fetch challenge''\<rparr>"
  by (simp_all add: get_api_games_def get_api_games_slug_def get_api_scores_def get_api_leaderboard_def
      get_api_challenges_def get_api_challenges_gameId_def error_response_def Let_def)

lemma post_scores_cases:
  "parse b = Inl e \<Longrightarrow>
     post_api_scores db parse b st = (\<lparr>status = 400, body = Message ''Invalid score data''\<rparr>, st)"
  "parse b = Inr d \<Longrightarrow> createScore db d st = (Inr row, st') \<Longrightarrow>
     post_api_scores db parse b st = (\<lparr>status = 201, body = OneScore row\<rparr>, st')"
  "parse b = Inr d \<Longrightarrow> createScore db d st = (Inl e, st') \<Longrightarrow>
     post_api_scores db parse b st = (\<lparr>status = 400, body = Message ''Invalid score data''\<rparr>, st')"
  by (simp_all add: post_api_scores_def error_response_def)

text \<open>
  C5 at the failing input: a body that fits the schema, and a store whose \<open>createScore\<close>
  rejects. The POST handler answers 400 with the message for invalid data, where the GET
  handler of the same store answers 500.
\<close>

theorem post_answers_400_when_store_fails:
  "insertScoreSchema_parse (score_body ''g1'' 450) =
     Inr \<lparr>InsertScore.gameId = ''g1'', userId = None, playerName = None, score = 450, gameData = None\<rparr> \<and>
   createScore failing_store
     \<lparr>InsertScore.gameId = ''g1'', userId = None, playerName = None, score = 450, gameData = None\<rparr> ()
     = (Inl (Failure ''store down''), ()) \<and>
   post_api_scores failing_store insertScoreSchema_parse (score_body ''g1'' 450) () =
     (\<lparr>status = 400, body = Message ''Invalid score data''\<rparr>, ()) \<and>
   get_api_scores failing_store (Some ''g1'') None () =
     \<lparr>status = 500, body = Message ''Failed to fetch scores''\<rparr>"
  by (simp add: post_api_scores_def get_api_scores_def failing_store_def insertScoreSchema_parse_def
      score_body_def optional_string_def error_response_def Let_def)

section \<open>The client's score cache\<close>

subsection \<open>Reading a cache that may be corrupt\<close>

lemma sort_insert_returns:
  assumes "\<forall>y \<in> set ys. \<exists>v. cmp x y = Inr v"
  shows "\<exists>zs. sort_insert cmp x ys = Inr zs \<and> set zs = insert x (set ys)"
  using assms
proof (induction ys)
  case Nil
  show ?case by simp
next
  case (Cons y ys)
  from Cons.prems obtain v where v: "cmp x y = Inr v" by auto
  from Cons.prems have "\<forall>z \<in> set ys. \<exists>v. cmp x z = Inr v" by simp
  with Cons.IH obtain zs where zs: "sort_insert cmp x ys = Inr zs" "set zs = insert x (set ys)"
    by blast
  show ?case
  proof (cases "case v of None \<Rightarrow> True | Some n \<Rightarrow> n \<le> 0")
    case True
    then show ?thesis by (simp add: v)
  next
    case False
    then show ?thesis using zs by (simp add: v insert_commute)
  qed
qed

lemma array_sort_returns:
  assumes "\<forall>a \<in> set xs. \<forall>b \<in> set xs. \<exists>v. cmp a b = Inr v"
  shows "\<exists>ys. array_sort cmp xs = Inr ys \<and> set ys = set xs"
  using assms
proof (induction xs)
  case Nil
  show ?case by simp
next
  case (Cons x xs)
  from Cons.prems have "\<forall>a \<in> set xs. \<forall>b \<in> set xs. \<exists>v. cmp a b = Inr v" by simp
  with Cons.IH obtain ys where ys: "array_sort cmp xs = Inr ys" "set ys = set xs" by blast
  from Cons.prems ys(2) have "\<forall>y \<in> set ys. \<exists>v. cmp x y = Inr v" by simp
  from sort_insert_returns [of ys cmp x, OF this] obtain zs where
    "sort_insert cmp x ys = Inr zs" "set zs = insert x (set ys)" by blast
  then show ?case using ys by simp
qed

lemma array_filter_kept:
  "array_filter p xs = Inr ys \<Longrightarrow> \<forall>y \<in> set ys. p y = Inr True"
proof (induction xs arbitrary: ys)
  case Nil
  then show ?case by simp
next
  case (Cons x xs)
  from Cons.prems obtain b zs where b: "p x = Inr b" and zs: "array_filter p xs = Inr zs"
    and ys: "ys = (if b then x # zs else zs)"
    by (auto split: sum.splits)
  from Cons.IH [OF zs] have "\<forall>y \<in> set zs. p y = Inr True" .
  then show ?case using b ys by auto
qed

lemma slug_is_object:
  "slug_is g y = Inr True \<Longrightarrow> \<exists>kvs. y = JObj kvs"
  by (cases y) (simp_all add: slug_is_def)

lemma by_score_desc_returns:
  assumes "\<exists>n. ToNumber conv (map_of a ''score'') = Inr n"
    and "\<exists>n. ToNumber conv (map_of b ''score'') = Inr n"
  shows "\<exists>v. by_score_desc conv (JObj a) (JObj b) = Inr v"
proof -
  obtain x where x: "ToNumber conv (map_of b ''score'') = Inr x" using assms(2) by blast
  obtain y where y: "ToNumber conv (map_of a ''score'') = Inr y" using assms(1) by blast
  show ?thesis by (simp add: by_score_desc_def x y)
qed

lemma getScores_filtered:
  assumes "g \<noteq> []"
  shows "\<exists>ys. LocalStorage_getScores ls (Some g) = JArr ys \<and> (\<forall>y \<in> set ys. \<exists>kvs. y = JObj kvs)"
proof (cases "getScores_try ls (Some g)")
  case (Inl e)
  then show ?thesis by (simp add: LocalStorage_getScores_def)
next
  case (Inr v)
  then obtain scores where f: "method_filter scores (slug_is g) = Inr v"
    using assms by (auto simp add: getScores_try_def split: sum.splits)
  then obtain xs ys where v: "v = JArr ys" and k: "array_filter (slug_is g) xs = Inr ys"
    by (auto simp add: method_filter_def split: json.splits sum.splits)
  from array_filter_kept [OF k] have "\<forall>y \<in> set ys. \<exists>kvs. y = JObj kvs"
    by (auto dest: slug_is_object)
  then show ?thesis using Inr v by (simp add: LocalStorage_getScores_def)
qed

lemma getTopScores_returns:
  assumes "g \<noteq> []"
    and "\<forall>ys kvs. LocalStorage_getScores ls (Some g) = JArr ys \<longrightarrow> JObj kvs \<in> set ys \<longrightarrow>
           (\<exists>n. ToNumber conv (map_of kvs ''score'') = Inr n)"
  shows "\<exists>rows. LocalStorage_getTopScores conv ls g limit = Inr rows \<and>
           (\<forall>y \<in> set rows. \<exists>kvs. y = JObj kvs)"
proof -
  from getScores_filtered [OF assms(1)] obtain ys where
    ys: "LocalStorage_getScores ls (Some g) = JArr ys" and o: "\<forall>y \<in> set ys. \<exists>kvs. y = JObj kvs"
    by blast
  have c: "\<And>kvs. JObj kvs \<in> set ys \<Longrightarrow> \<exists>n. ToNumber conv (map_of kvs ''score'') = Inr n"
    using assms(2) ys by blast
  have "\<forall>a \<in> set ys. \<forall>b \<in> set ys. \<exists>v. by_score_desc conv a b = Inr v"
  proof (intro ballI)
    fix a b assume a: "a \<in> set ys" and b: "b \<in> set ys"
    then obtain ka kb where k: "a = JObj ka" "b = JObj kb" using o by blast
    from a b k have "\<exists>n. ToNumber conv (map_of ka ''score'') = Inr n"
      and "\<exists>n. ToNumber conv (map_of kb ''score'') = Inr n"
      using c by simp_all
    then show "\<exists>v. by_score_desc conv a b = Inr v"
      using by_score_desc_returns [of conv ka kb] k by simp
  qed
  from array_sort_returns [OF this] obtain zs where
    zs: "array_sort (by_score_desc conv) ys = Inr zs" "set zs = set ys" by blast
  have "\<forall>y \<in> set (slice0 (case limit of None \<Rightarrow> 10 | Some n \<Rightarrow> n) zs). \<exists>kvs. y = JObj kvs"
    using o zs(2) by (auto simp add: slice0_def dest: in_set_takeD)
  then show ?thesis by (simp add: LocalStorage_getTopScores_def ys zs(1))
qed

lemma getBestScore_returns:
  assumes "g \<noteq> []"
    and "\<forall>ys kvs. LocalStorage_getScores ls (Some g) = JArr ys \<longrightarrow> JObj kvs \<in> set ys \<longrightarrow>
           (\<exists>n. ToNumber conv (map_of kvs ''score'') = Inr n)"
  shows "\<exists>v. LocalStorage_getBestScore conv ls g = Inr v"
proof -
  from getTopScores_returns [OF assms, of "Some 1"] obtain rows where
    r: "LocalStorage_getTopScores conv ls g (Some 1) = Inr rows"
    and o: "\<forall>y \<in> set rows. \<exists>kvs. y = JObj kvs"
    by blast
  show ?thesis
  proof (cases rows)
    case Nil
    then show ?thesis by (simp add: LocalStorage_getBestScore_def r)
  next
    case (Cons y rest)
    then obtain kvs where "y = JObj kvs" using o by auto
    then show ?thesis using Cons by (simp add: LocalStorage_getBestScore_def r)
  qed
qed

lemma unreadable_scores:
  assumes "ls SCORES_KEY = None \<or> ls SCORES_KEY = Some Empty_text \<or> ls SCORES_KEY = Some Malformed"
  shows "LocalStorage_getScores ls sl = JArr []"
    and "LocalStorage_getTopScores conv ls g limit = Inr []"
    and "LocalStorage_getBestScore conv ls g = Inr (Some (JNum 0))"
proof -
  have a: "\<And>sl. LocalStorage_getScores ls sl = JArr []"
    using assms
    by (auto simp add: LocalStorage_getScores_def getScores_try_def method_filter_def
        split: option.splits)
  show "LocalStorage_getScores ls sl = JArr []" by (rule a)
  show b: "LocalStorage_getTopScores conv ls g limit = Inr []"
    by (simp add: LocalStorage_getTopScores_def a slice0_def)
  show "LocalStorage_getBestScore conv ls g = Inr (Some (JNum 0))"
    by (simp add: LocalStorage_getBestScore_def LocalStorage_getTopScores_def a slice0_def)
qed

lemma unreadable_preferences:
  assumes "ls PREFERENCES_KEY = None \<or> ls PREFERENCES_KEY = Some Empty_text \<or>
           ls PREFERENCES_KEY = Some Malformed"
  shows "LocalStorage_getPreferences ls = default_preferences"
  using assms by (auto simp add: LocalStorage_getPreferences_def)

lemma string_cache_rows:
  "LocalStorage_getScores string_cache (Some ''tap-snake'') =
     JArr [JObj [(''gameSlug'', JStr ''tap-snake''), (''score'', JNum 7)],
           JObj [(''gameSlug'', JStr ''tap-snake''), (''score'', JStr ''12'')]]"
  by (simp add: LocalStorage_getScores_def getScores_try_def method_filter_def slug_is_def
      string_cache_def SCORES_KEY_def)

text \<open>
  What the reads do achieve. \<open>getScores\<close> and \<open>getPreferences\<close> catch every exception
  of their bodies. When the stored text is missing, empty or not parsable, \<open>getScores\<close>
  and \<open>getTopScores\<close> give the empty list, \<open>getBestScore\<close> gives 0 and
  \<open>getPreferences\<close> gives the defaults. For every stored text and every game identifier
  that is not empty, \<open>getScores\<close> gives a list; and \<open>getTopScores\<close> and \<open>getBestScore\<close>
  return without throwing when the conversion to a number does not throw on the \<open>score\<close>
  values of the rows that \<open>getScores\<close> gives for the game.
\<close>

lemma reads_degrade:
  "((ls SCORES_KEY = None \<or> ls SCORES_KEY = Some Empty_text \<or> ls SCORES_KEY = Some Malformed) \<longrightarrow>
      LocalStorage_getScores ls sl = JArr [] \<and>
      LocalStorage_getTopScores conv ls g limit = Inr [] \<and>
      LocalStorage_getBestScore conv ls g = Inr (Some (JNum 0))) \<and>
   ((ls PREFERENCES_KEY = None \<or> ls PREFERENCES_KEY = Some Empty_text \<or>
     ls PREFERENCES_KEY = Some Malformed) \<longrightarrow>
      LocalStorage_getPreferences ls = default_preferences) \<and>
   (g \<noteq> [] \<longrightarrow> LocalStorage_getScores ls (Some g) \<in> range JArr) \<and>
   (g \<noteq> [] \<and>
    (\<forall>ys kvs. LocalStorage_getScores ls (Some g) = JArr ys \<longrightarrow> JObj kvs \<in> set ys \<longrightarrow>
       (\<exists>n. ToNumber conv (map_of kvs ''score'') = Inr n)) \<longrightarrow>
      (\<exists>rows. LocalStorage_getTopScores conv ls g limit = Inr rows) \<and>
      (\<exists>v. LocalStorage_getBestScore conv ls g = Inr v))"
proof (intro conjI impI)
  assume a: "ls SCORES_KEY = None \<or> ls SCORES_KEY = Some Empty_text \<or> ls SCORES_KEY = Some Malformed"
  show "LocalStorage_getScores ls sl = JArr []" using a by (rule unreadable_scores)
  show "LocalStorage_getTopScores conv ls g limit = Inr []" using a by (rule unreadable_scores)
  show "LocalStorage_getBestScore conv ls g = Inr (Some (JNum 0))" using a by (rule unreadable_scores)
next
  assume "ls PREFERENCES_KEY = None \<or> ls PREFERENCES_KEY = Some Empty_text \<or>
          ls PREFERENCES_KEY = Some Malformed"
  then show "LocalStorage_getPreferences ls = default_preferences" by (rule unreadable_preferences)
next
  assume "g \<noteq> []"
  then show "LocalStorage_getScores ls (Some g) \<in> range JArr"
    using getScores_filtered [of g ls] by auto
next
  assume b: "g \<noteq> [] \<and>
    (\<forall>ys kvs. LocalStorage_getScores ls (Some g) = JArr ys \<longrightarrow> JObj kvs \<in> set ys \<longrightarrow>
       (\<exists>n. ToNumber conv (map_of kvs ''score'') = Inr n))"
  then show "\<exists>rows. LocalStorage_getTopScores conv ls g limit = Inr rows"
    using getTopScores_returns [of g ls conv limit] by blast
  from b show "\<exists>v. LocalStorage_getBestScore conv ls g = Inr v"
    using getBestScore_returns [of g ls conv] by blast
qed

lemma reads_degrade_witness:
  "LocalStorage_getScores unparsable_cache None = JArr [] \<and>
   LocalStorage_getTopScores reads_twelve unparsable_cache ''tap-snake'' None = Inr [] \<and>
   LocalStorage_getBestScore reads_twelve unparsable_cache ''tap-snake'' = Inr (Some (JNum 0)) \<and>
   LocalStorage_getPreferences unparsable_cache = default_preferences \<and>
   (\<exists>rows. LocalStorage_getTopScores reads_twelve string_cache ''tap-snake'' None = Inr rows) \<and>
   (\<exists>v. LocalStorage_getBestScore reads_twelve string_cache ''tap-snake'' = Inr v)"
proof -
  have a: "unparsable_cache SCORES_KEY = None \<or> unparsable_cache SCORES_KEY = Some Empty_text \<or>
           unparsable_cache SCORES_KEY = Some Malformed"
    by (simp add: unparsable_cache_def SCORES_KEY_def PREFERENCES_KEY_def)
  have b: "unparsable_cache PREFERENCES_KEY = None \<or> unparsable_cache PREFERENCES_KEY = Some Empty_text \<or>
           unparsable_cache PREFERENCES_KEY = Some Malformed"
    by (simp add: unparsable_cache_def)
  have c: "''tap-snake'' \<noteq> [] \<and>
    (\<forall>ys kvs. LocalStorage_getScores string_cache (Some ''tap-snake'') = JArr ys \<longrightarrow>
       JObj kvs \<in> set ys \<longrightarrow> (\<exists>n. ToNumber reads_twelve (map_of kvs ''score'') = Inr n))"
    by (auto simp add: string_cache_rows ToNumber_def reads_twelve_def)
  show ?thesis
    using reads_degrade [of unparsable_cache None reads_twelve "''tap-snake''" None]
      reads_degrade [of string_cache None reads_twelve "''tap-snake''" None] a b c
    by simp
qed

lemma string_cache_top:
  "LocalStorage_getTopScores reads_twelve string_cache ''tap-snake'' None =
     Inr [JObj [(''gameSlug'', JStr ''tap-snake''), (''score'', JStr ''12'')],
          JObj [(''gameSlug'', JStr ''tap-snake''), (''score'', JNum 7)]]"
  by (simp add: LocalStorage_getTopScores_def string_cache_rows by_score_desc_def ToNumber_def
      reads_twelve_def slice0_def)

text \<open>
  C9 at the failing input, a stored text that parses but has the wrong shape, here the
  JSON \<open>null\<close> under both keys. \<open>getScores()\<close> and \<open>getPreferences\<close> return \<open>null\<close>, not
  a list and not the defaults; with an empty game identifier \<open>getScores\<close> skips its
  filter and hands \<open>null\<close> to the \<open>sort\<close> of \<open>getTopScores\<close>, outside every \<open>try\<close>, so
  \<open>getTopScores\<close> and \<open>getBestScore\<close> throw. With a game identifier that is not empty
  the same reads do degrade at the same text: the call of \<open>filter\<close> on \<open>null\<close> throws
  inside the \<open>try\<close>.
\<close>

theorem reads_throw_or_pass_on_wrong_shape:
  "LocalStorage_getTopScores no_conversion null_cache [] None = Inl TypeError \<and>
   LocalStorage_getBestScore no_conversion null_cache [] = Inl TypeError \<and>
   LocalStorage_getScores null_cache None = JNull \<and>
   LocalStorage_getPreferences null_cache = JNull \<and>
   JNull \<noteq> default_preferences \<and>
   LocalStorage_getScores null_cache (Some ''tap-snake'') = JArr [] \<and>
   LocalStorage_getTopScores no_conversion null_cache ''tap-snake'' None = Inr [] \<and>
   LocalStorage_getBestScore no_conversion null_cache ''tap-snake'' = Inr (Some (JNum 0))"
  by (simp add: LocalStorage_getTopScores_def LocalStorage_getBestScore_def LocalStorage_getScores_def
      getScores_try_def LocalStorage_getPreferences_def null_cache_def SCORES_KEY_def
      PREFERENCES_KEY_def default_preferences_def method_filter_def slice0_def)


subsection \<open>Saving into a cache of score records\<close>

lemma to_json_props:
  "get_prop (to_json s) ''gameSlug'' = Inr (Some (JStr (gameSlug s)))"
  "get_prop (to_json s) ''score'' = Inr (Some (JNum (GameScore.score s)))"
  by (simp_all add: to_json_def)

lemma slug_is_to_json:
  "slug_is g (to_json s) = Inr (gameSlug s = g)"
  "slug_is_not g (to_json s) = Inr (gameSlug s \<noteq> g)"
  by (simp_all add: slug_is_def slug_is_not_def to_json_props)

lemma array_filter_map:
  assumes "\<And>x. p (enc x) = Inr (q x)"
  shows "array_filter p (map enc xs) = Inr (map enc (filter q xs))"
  by (induction xs) (simp_all add: assms)

lemma by_score_desc_to_json:
  "by_score_desc conv (to_json a) (to_json b) =
     Inr (Some ((- GameScore.score a) - (- GameScore.score b)))"
  by (simp add: by_score_desc_def to_json_props ToNumber_def)

lemma sort_insert_map:
  assumes "\<And>a b. cmp (enc a) (enc b) = Inr (Some (f a - f b))"
  shows "sort_insert cmp (enc x) (map enc ys) = Inr (map enc (insort_key f x ys))"
  by (induction ys) (simp_all add: assms)

lemma array_sort_map:
  fixes f :: "'a \<Rightarrow> int"
  assumes "\<And>a b. cmp (enc a) (enc b) = Inr (Some (f a - f b))"
  shows "array_sort cmp (map enc xs) = Inr (map enc (sort_key f xs))"
proof (induction xs)
  case Nil
  show ?case by simp
next
  case (Cons x xs)
  have "sort_insert cmp (enc x) (map enc (sort_key f xs)) = Inr (map enc (insort_key f x (sort_key f xs)))"
    using assms by (rule sort_insert_map)
  then show ?case using Cons.IH by simp
qed

lemma getScores_holds:
  "holds_scores ls xs \<Longrightarrow> LocalStorage_getScores ls None = JArr (map to_json xs)"
  by (auto simp add: holds_scores_def LocalStorage_getScores_def getScores_try_def
      split: option.splits stored.splits)

lemma saveScore_holds:
  assumes "holds_scores ls xs"
  shows "LocalStorage_saveScore conv s ls =
           Inr (ls(SCORES_KEY \<mapsto> Json_text (JArr (map to_json (rows_after_save s xs)))))"
proof -
  let ?all = "map to_json (xs @ [s])"
  have g: "LocalStorage_getScores ls None = JArr (map to_json xs)"
    using assms by (rule getScores_holds)
  have a: "array_filter (slug_is (gameSlug s)) ?all =
             Inr (map to_json (filter (\<lambda>x. gameSlug x = gameSlug s) (xs @ [s])))"
    by (rule array_filter_map) (simp add: slug_is_to_json)
  have b: "array_filter (slug_is_not (gameSlug s)) ?all =
             Inr (map to_json (filter (\<lambda>x. gameSlug x \<noteq> gameSlug s) (xs @ [s])))"
    by (rule array_filter_map) (simp add: slug_is_to_json)
  have c: "\<And>ys. array_sort (by_score_desc conv) (map to_json ys) =
             Inr (map to_json (sort_key (\<lambda>x. - GameScore.score x) ys))"
    by (rule array_sort_map) (simp add: by_score_desc_to_json)
  have all: "map to_json xs @ [to_json s] = ?all" by simp
  show ?thesis
    unfolding LocalStorage_saveScore_def g
    by (simp only: json.case Let_def all a b c sum.case slice0_nat [of 100, simplified] take_map
        map_append [symmetric] rows_after_save_def)
qed

lemma holds_scores_update:
  "holds_scores (ls(SCORES_KEY \<mapsto> Json_text (JArr (map to_json ys)))) ys"
  by (simp add: holds_scores_def)

lemma saveScores_holds:
  "holds_scores ls xs \<Longrightarrow>
   \<exists>ls'. saveScores conv ss ls = Inr ls' \<and>
         holds_scores ls' (foldl (\<lambda>ys s. rows_after_save s ys) xs ss) \<and>
         (\<forall>k. k \<noteq> SCORES_KEY \<longrightarrow> ls' k = ls k)"
proof (induction ss arbitrary: ls xs)
  case Nil
  then show ?case by simp
next
  case (Cons s ss)
  let ?ls1 = "ls(SCORES_KEY \<mapsto> Json_text (JArr (map to_json (rows_after_save s xs))))"
  have s1: "LocalStorage_saveScore conv s ls = Inr ?ls1"
    using Cons.prems by (rule saveScore_holds)
  have h1: "holds_scores ?ls1 (rows_after_save s xs)"
    by (rule holds_scores_update)
  from Cons.IH [OF h1] obtain ls' where
    r: "saveScores conv ss ?ls1 = Inr ls'"
    and h: "holds_scores ls' (foldl (\<lambda>ys s. rows_after_save s ys) (rows_after_save s xs) ss)"
    and o: "\<forall>k. k \<noteq> SCORES_KEY \<longrightarrow> ls' k = ?ls1 k"
    by blast
  have "saveScores conv (s # ss) ls = Inr ls'" by (simp add: s1 r)
  moreover have "holds_scores ls' (foldl (\<lambda>ys s. rows_after_save s ys) xs (s # ss))"
    using h by simp
  moreover have "\<forall>k. k \<noteq> SCORES_KEY \<longrightarrow> ls' k = ls k"
    using o by simp
  ultimately show ?case by blast
qed

subsection \<open>The best 100 survive\<close>

lemma take_insort_take:
  "take n (insort_key f b (take n l)) = take n (insort_key f b l)"
proof (induction l arbitrary: n)
  case Nil
  show ?case by simp
next
  case (Cons y l)
  show ?case
  proof (cases n)
    case 0
    then show ?thesis by simp
  next
    case (Suc m)
    have "take m (y # take m l) = take m (y # l)"
      by (cases m) simp_all
    then show ?thesis using Suc Cons.IH [of m] by simp
  qed
qed

lemma take_foldr_insort_take:
  "take n (foldr (insort_key f) bs (take n l)) = take n (foldr (insort_key f) bs l)"
proof (induction bs)
  case Nil
  show ?case by simp
next
  case (Cons b bs)
  let ?l1 = "foldr (insort_key f) bs (take n l)"
  let ?l2 = "foldr (insort_key f) bs l"
  have "take n (insort_key f b ?l1) = take n (insort_key f b (take n ?l1))"
    by (simp only: take_insort_take)
  also have "\<dots> = take n (insort_key f b (take n ?l2))"
    by (simp only: Cons.IH)
  also have "\<dots> = take n (insort_key f b ?l2)"
    by (simp only: take_insort_take)
  finally show ?case by simp
qed

lemma sort_append_foldr:
  fixes a b :: "int list"
  shows "sort (a @ b) = foldr insort b (sort a)"
proof -
  have "sort (b @ a) = foldr insort b (sort a)"
    by (simp add: sort_key_def)
  moreover have "sort (a @ b) = sort (b @ a)"
    by (rule properties_for_sort) simp_all
  ultimately show ?thesis by simp
qed

lemma take_sort_absorb:
  fixes a b :: "int list"
  shows "take n (sort (take n (sort a) @ b)) = take n (sort (a @ b))"
proof -
  have s: "sort (take n (sort a)) = take n (sort a)"
    by (rule sort_key_id_if_sorted) (simp add: sorted_wrt_take)
  have "take n (sort (take n (sort a) @ b)) = take n (foldr insort b (take n (sort a)))"
    by (simp only: sort_append_foldr s)
  also have "\<dots> = take n (foldr insort b (sort a))"
    by (rule take_foldr_insort_take)
  finally show ?thesis by (simp only: sort_append_foldr)
qed

lemma map_sort_key:
  fixes f :: "'a \<Rightarrow> int"
  shows "map f (sort_key f xs) = sort (map f xs)"
proof -
  have "sort (map f xs) = map f (sort_key f xs)"
    by (rule properties_for_sort) (simp_all add: sorted_sort_key)
  then show ?thesis by simp
qed

lemma neg_sort_neg:
  fixes l :: "int list"
  shows "map uminus (sort (map uminus l)) = rev (sort l)"
proof -
  have a: "sort (map uminus l) = map uminus (sort_key uminus l)"
    by (simp only: map_sort_key)
  have b: "sort_key uminus l = rev (sort l)"
    using scores_of_ranked [of "\<lambda>x. x" l] by simp
  show ?thesis by (simp add: a b comp_def)
qed

lemma filter_take_sort_same:
  fixes l :: "GameScore list"
  assumes "\<forall>x \<in> set l. gameSlug x = g"
  shows "filter (\<lambda>x. gameSlug x = g) (take n (sort_key f l)) = take n (sort_key f l)"
    and "filter (\<lambda>x. gameSlug x \<noteq> g) (take n (sort_key f l)) = []"
proof -
  have t: "\<forall>x \<in> set (take n (sort_key f l)). gameSlug x = g"
  proof
    fix x assume "x \<in> set (take n (sort_key f l))"
    then have "x \<in> set (sort_key f l)" by (rule in_set_takeD)
    then show "gameSlug x = g" using assms by simp
  qed
  show "filter (\<lambda>x. gameSlug x = g) (take n (sort_key f l)) = take n (sort_key f l)"
    using t by (rule filter_True)
  show "filter (\<lambda>x. gameSlug x \<noteq> g) (take n (sort_key f l)) = []"
    using t by (simp add: filter_empty_conv)
qed

lemma rows_after_save_parts:
  assumes "gameSlug s = g"
  shows "filter (\<lambda>x. gameSlug x = g) (rows_after_save s xs) =
           take 100 (sort_key (\<lambda>x. - GameScore.score x) (filter (\<lambda>x. gameSlug x = g) xs @ [s]))"
    and "filter (\<lambda>x. gameSlug x \<noteq> g) (rows_after_save s xs) = filter (\<lambda>x. gameSlug x \<noteq> g) xs"
proof -
  let ?l = "filter (\<lambda>x. gameSlug x = g) xs @ [s]"
  let ?top = "take 100 (sort_key (\<lambda>x. - GameScore.score x) ?l)"
  have r: "rows_after_save s xs = filter (\<lambda>x. gameSlug x \<noteq> g) xs @ ?top"
    using assms by (simp add: rows_after_save_def)
  have l: "\<forall>x \<in> set ?l. gameSlug x = g"
    using assms by simp
  show "filter (\<lambda>x. gameSlug x = g) (rows_after_save s xs) = ?top"
    unfolding r by (simp add: filter_take_sort_same [OF l])
  show "filter (\<lambda>x. gameSlug x \<noteq> g) (rows_after_save s xs) = filter (\<lambda>x. gameSlug x \<noteq> g) xs"
    unfolding r by (simp add: filter_take_sort_same [OF l])
qed

lemma rows_after_saves:
  assumes "ss \<noteq> []"
  shows "(\<forall>s \<in> set ss. gameSlug s = g) \<longrightarrow>
         (\<forall>xs :: GameScore list. map (\<lambda>x. - GameScore.score x)
                  (filter (\<lambda>x. gameSlug x = g) (foldl (\<lambda>ys s. rows_after_save s ys) xs ss)) =
                take 100 (sort (map (\<lambda>x. - GameScore.score x) (filter (\<lambda>x. gameSlug x = g) xs @ ss))) \<and>
               mset (filter (\<lambda>x. gameSlug x = g) (foldl (\<lambda>ys s. rows_after_save s ys) xs ss))
                 \<subseteq># mset (filter (\<lambda>x. gameSlug x = g) xs @ ss) \<and>
               filter (\<lambda>x. gameSlug x \<noteq> g) (foldl (\<lambda>ys s. rows_after_save s ys) xs ss) =
                 filter (\<lambda>x. gameSlug x \<noteq> g) xs)"
  using assms
proof (induction ss rule: list_nonempty_induct)
  case (single s)
  show ?case
  proof (intro impI allI)
    fix xs :: "GameScore list"
    assume "\<forall>s \<in> set [s]. gameSlug s = g"
    then have g: "gameSlug s = g" by simp
    let ?G = "filter (\<lambda>x. gameSlug x = g) xs"
    have a: "map (\<lambda>x. - GameScore.score x) (take 100 (sort_key (\<lambda>x. - GameScore.score x) (?G @ [s]))) =
             take 100 (sort (map (\<lambda>x. - GameScore.score x) (?G @ [s])))"
      by (simp only: take_map [symmetric] map_sort_key)
    have "mset (take 100 (sort_key (\<lambda>x. - GameScore.score x) (?G @ [s])))
            \<subseteq># mset (sort_key (\<lambda>x. - GameScore.score x) (?G @ [s]))"
      by (rule mset_take_subset)
    then have b: "mset (take 100 (sort_key (\<lambda>x. - GameScore.score x) (?G @ [s]))) \<subseteq># mset (?G @ [s])"
      by simp
    show "map (\<lambda>x. - GameScore.score x)
            (filter (\<lambda>x. gameSlug x = g) (foldl (\<lambda>ys s. rows_after_save s ys) xs [s])) =
          take 100 (sort (map (\<lambda>x. - GameScore.score x) (?G @ [s]))) \<and>
          mset (filter (\<lambda>x. gameSlug x = g) (foldl (\<lambda>ys s. rows_after_save s ys) xs [s]))
            \<subseteq># mset (?G @ [s]) \<and>
          filter (\<lambda>x. gameSlug x \<noteq> g) (foldl (\<lambda>ys s. rows_after_save s ys) xs [s]) =
            filter (\<lambda>x. gameSlug x \<noteq> g) xs"
      using a b by (simp add: rows_after_save_parts [OF g])
  qed
next
  case (cons s ss)
  show ?case
  proof (intro impI allI)
    fix xs :: "GameScore list"
    assume all: "\<forall>t \<in> set (s # ss). gameSlug t = g"
    then have g: "gameSlug s = g" and rest: "\<forall>t \<in> set ss. gameSlug t = g" by simp_all
    let ?G = "filter (\<lambda>x. gameSlug x = g) xs"
    let ?xs1 = "rows_after_save s xs"
    let ?ys = "foldl (\<lambda>ys s. rows_after_save s ys) ?xs1 ss"
    let ?k = "\<lambda>x. - GameScore.score x"
    from cons.IH rest have ih:
      "map ?k (filter (\<lambda>x. gameSlug x = g) ?ys) =
         take 100 (sort (map ?k (filter (\<lambda>x. gameSlug x = g) ?xs1 @ ss)))"
      "mset (filter (\<lambda>x. gameSlug x = g) ?ys) \<subseteq># mset (filter (\<lambda>x. gameSlug x = g) ?xs1 @ ss)"
      "filter (\<lambda>x. gameSlug x \<noteq> g) ?ys = filter (\<lambda>x. gameSlug x \<noteq> g) ?xs1"
      by blast+
    have g1: "filter (\<lambda>x. gameSlug x = g) ?xs1 = take 100 (sort_key ?k (?G @ [s]))"
      by (rule rows_after_save_parts [OF g])
    have k1: "map ?k (take 100 (sort_key ?k (?G @ [s]))) = take 100 (sort (map ?k (?G @ [s])))"
      by (simp only: take_map [symmetric] map_sort_key)
    have "map ?k (filter (\<lambda>x. gameSlug x = g) ?ys) =
            take 100 (sort (take 100 (sort (map ?k (?G @ [s]))) @ map ?k ss))"
      by (simp only: ih(1) g1 map_append k1)
    also have "\<dots> = take 100 (sort (map ?k (?G @ [s]) @ map ?k ss))"
      by (rule take_sort_absorb)
    also have "\<dots> = take 100 (sort (map ?k (?G @ s # ss)))"
      by simp
    finally have a: "map ?k (filter (\<lambda>x. gameSlug x = g) ?ys) = take 100 (sort (map ?k (?G @ s # ss)))" .
    have "mset (take 100 (sort_key ?k (?G @ [s]))) \<subseteq># mset (sort_key ?k (?G @ [s]))"
      by (rule mset_take_subset)
    then have "mset (filter (\<lambda>x. gameSlug x = g) ?xs1) \<subseteq># mset (?G @ [s])"
      by (simp add: g1)
    then have "mset (filter (\<lambda>x. gameSlug x = g) ?xs1 @ ss) \<subseteq># mset (?G @ s # ss)"
      by simp
    with ih(2) have b: "mset (filter (\<lambda>x. gameSlug x = g) ?ys) \<subseteq># mset (?G @ s # ss)"
      by (rule subset_mset.order_trans)
    have c: "filter (\<lambda>x. gameSlug x \<noteq> g) ?ys = filter (\<lambda>x. gameSlug x \<noteq> g) xs"
      by (simp only: ih(3) rows_after_save_parts(2) [OF g])
    show "map ?k (filter (\<lambda>x. gameSlug x = g) (foldl (\<lambda>ys s. rows_after_save s ys) xs (s # ss))) =
          take 100 (sort (map ?k (?G @ s # ss))) \<and>
          mset (filter (\<lambda>x. gameSlug x = g) (foldl (\<lambda>ys s. rows_after_save s ys) xs (s # ss)))
            \<subseteq># mset (?G @ s # ss) \<and>
          filter (\<lambda>x. gameSlug x \<noteq> g) (foldl (\<lambda>ys s. rows_after_save s ys) xs (s # ss)) =
            filter (\<lambda>x. gameSlug x \<noteq> g) xs"
      using a b c by simp
  qed
qed

text \<open>
  The retention on every cache of score records. For a cache that holds score records (or
  whose text is missing, empty or unparsable, which reads as none), and a non-empty
  sequence of \<open>saveScore\<close> calls for one game identifier \<open>g\<close> that brings the scores of
  \<open>g\<close> to more than 100: every call returns, and the cache then holds exactly 100
  records of \<open>g\<close>, all taken from the old ones and the saved ones, whose scores are the
  100 highest in descending order; the records of other games, and the other keys of the
  cache, are as before.
\<close>

theorem cache_keeps_top_100:
  assumes "holds_scores ls xs" and "ss \<noteq> []" and "\<forall>s \<in> set ss. gameSlug s = g"
    and "100 < length (filter (\<lambda>x. gameSlug x = g) xs) + length ss"
  shows "\<exists>ls' ys. saveScores conv ss ls = Inr ls' \<and> holds_scores ls' ys \<and>
           length (filter (\<lambda>x. gameSlug x = g) ys) = 100 \<and>
           map GameScore.score (filter (\<lambda>x. gameSlug x = g) ys) =
             take 100 (rev (sort (map GameScore.score (filter (\<lambda>x. gameSlug x = g) xs @ ss)))) \<and>
           mset (filter (\<lambda>x. gameSlug x = g) ys) \<subseteq># mset (filter (\<lambda>x. gameSlug x = g) xs @ ss) \<and>
           filter (\<lambda>x. gameSlug x \<noteq> g) ys = filter (\<lambda>x. gameSlug x \<noteq> g) xs \<and>
           (\<forall>k. k \<noteq> SCORES_KEY \<longrightarrow> ls' k = ls k)"
proof -
  let ?ys = "foldl (\<lambda>ys s. rows_after_save s ys) xs ss"
  let ?G = "filter (\<lambda>x. gameSlug x = g) xs"
  let ?k = "\<lambda>x. - GameScore.score x"
  from saveScores_holds [OF assms(1), of conv ss] obtain ls' where
    r: "saveScores conv ss ls = Inr ls'" and h: "holds_scores ls' ?ys"
    and o: "\<forall>k. k \<noteq> SCORES_KEY \<longrightarrow> ls' k = ls k"
    by blast
  from rows_after_saves [OF assms(2), of g] assms(3) have
    a: "map ?k (filter (\<lambda>x. gameSlug x = g) ?ys) = take 100 (sort (map ?k (?G @ ss)))"
    and b: "mset (filter (\<lambda>x. gameSlug x = g) ?ys) \<subseteq># mset (?G @ ss)"
    and c: "filter (\<lambda>x. gameSlug x \<noteq> g) ?ys = filter (\<lambda>x. gameSlug x \<noteq> g) xs"
    by blast+
  have "length (map ?k (filter (\<lambda>x. gameSlug x = g) ?ys)) = 100"
    using assms(4) by (simp only: a) simp
  then have n: "length (filter (\<lambda>x. gameSlug x = g) ?ys) = 100" by simp
  have "map GameScore.score (filter (\<lambda>x. gameSlug x = g) ?ys) =
          map uminus (map ?k (filter (\<lambda>x. gameSlug x = g) ?ys))"
    by (simp add: comp_def)
  also have "\<dots> = take 100 (map uminus (sort (map uminus (map GameScore.score (?G @ ss)))))"
    by (simp only: a take_map) (simp add: comp_def)
  also have "\<dots> = take 100 (rev (sort (map GameScore.score (?G @ ss))))"
    by (simp only: neg_sort_neg)
  finally have s: "map GameScore.score (filter (\<lambda>x. gameSlug x = g) ?ys) =
          take 100 (rev (sort (map GameScore.score (?G @ ss))))" .
  show ?thesis using r h n s b c o by blast
qed

theorem cache_keeps_top_100_witness:
  "\<exists>ls' ys. saveScores no_conversion (map snake_score [1..101]) Map.empty = Inr ls' \<and>
     holds_scores ls' ys \<and>
     length (filter (\<lambda>x. gameSlug x = ''tap-snake'') ys) = 100 \<and>
     map GameScore.score (filter (\<lambda>x. gameSlug x = ''tap-snake'') ys) =
       take 100 (rev (sort (map GameScore.score (map snake_score [1..101]))))"
proof -
  have a: "holds_scores Map.empty []" by (simp add: holds_scores_def)
  have b: "map snake_score [1..101] \<noteq> []" by (simp add: upto_rec1)
  have c: "\<forall>s \<in> set (map snake_score [1..101]). gameSlug s = ''tap-snake''"
    by (simp add: snake_score_def)
  have d: "100 < length (filter (\<lambda>x. gameSlug x = ''tap-snake'') []) + length (map snake_score [1..101])"
    by simp
  from cache_keeps_top_100 [OF a b c d, of no_conversion]
  show ?thesis by simp blast
qed

text \<open>
  C3 at the failing input, a cache whose text is JSON but not an array, here \<open>null\<close>:
  \<open>getScores()\<close> returns \<open>null\<close> as it is, the first \<open>saveScore\<close> throws at
  \<open>scores.push\<close> and so does every later one, and the cache keeps its text. On a text
  that does not parse, the \<open>catch\<close> of \<open>getScores\<close> makes the same \<open>saveScore\<close> start
  from the empty list.
\<close>

theorem saveScore_throws_on_null_cache:
  "saveScores no_conversion (map snake_score [1..101]) null_cache = Inl TypeError \<and>
   LocalStorage_saveScore no_conversion (snake_score 1) null_cache = Inl TypeError \<and>
   LocalStorage_getScores null_cache None = JNull \<and>
   LocalStorage_saveScore no_conversion (snake_score 1) unparsable_cache =
     Inr (unparsable_cache(SCORES_KEY \<mapsto> Json_text (JArr [to_json (snake_score 1)])))"
proof -
  have a: "LocalStorage_saveScore no_conversion (snake_score 1) null_cache = Inl TypeError"
    by (simp add: LocalStorage_saveScore_def LocalStorage_getScores_def getScores_try_def
        null_cache_def SCORES_KEY_def PREFERENCES_KEY_def)
  have "map snake_score [1..101] = snake_score 1 # map snake_score [2..101]"
    by (simp add: upto_rec1)
  with a have b: "saveScores no_conversion (map snake_score [1..101]) null_cache = Inl TypeError"
    by simp
  have c: "LocalStorage_getScores null_cache None = JNull"
    by (simp add: LocalStorage_getScores_def getScores_try_def null_cache_def SCORES_KEY_def
        PREFERENCES_KEY_def)
  have d: "LocalStorage_saveScore no_conversion (snake_score 1) unparsable_cache =
     Inr (unparsable_cache(SCORES_KEY \<mapsto> Json_text (JArr [to_json (snake_score 1)])))"
    by (simp add: LocalStorage_saveScore_def LocalStorage_getScores_def getScores_try_def
        unparsable_cache_def SCORES_KEY_def PREFERENCES_KEY_def slug_is_def slug_is_not_def
        to_json_def snake_score_def slice0_def)
  show ?thesis using a b c d by simp
qed

end
